theory Spec2Isabelle
  imports Main "HOL-Library.Word"
begin

section \<open>The compute-unit model of xrt\_cu.h\<close>

text \<open>
  \<^verbatim>\<open>u32\<close> fields are 32-bit words (addition wraps), C \<^verbatim>\<open>int\<close> results of the
  driver are integers. \<^verbatim>\<open>struct xcu_status\<close> is what a driver's \<^verbatim>\<open>check\<close> fills in.
\<close>

type_synonym u32 = "32 word"

record xcu_status =
  num_done :: u32
  num_ready :: u32

text \<open>
  \<^verbatim>\<open>struct xcu_funcs\<close>: the table of function pointers of a CU backend. Every entry
  receives the opaque \<^verbatim>\<open>void *core\<close>; in the model the core is a value of type \<open>'c\<close>
  that each entry takes and hands back, so an entry can change the core and nothing
  else. \<^verbatim>\<open>check\<close> writes through its \<^verbatim>\<open>status\<close> pointer: it takes the status record
  the caller prepared and returns the one it leaves.
\<close>

record 'c xcu_funcs =
  alloc_credit :: "'c \<Rightarrow> int \<times> 'c"
  free_credit :: "'c \<Rightarrow> u32 \<Rightarrow> 'c"
  peek_credit :: "'c \<Rightarrow> int \<times> 'c"
  configure :: "'c \<Rightarrow> u32 list \<Rightarrow> nat \<Rightarrow> int \<Rightarrow> 'c"
  start :: "'c \<Rightarrow> 'c"
  check :: "'c \<Rightarrow> xcu_status \<Rightarrow> 'c \<times> xcu_status"
  reset :: "'c \<Rightarrow> 'c"
  reset_done :: "'c \<Rightarrow> int \<times> 'c"
  enable_intr :: "'c \<Rightarrow> u32 \<Rightarrow> 'c"
  disable_intr :: "'c \<Rightarrow> u32 \<Rightarrow> 'c"
  clear_intr :: "'c \<Rightarrow> u32 \<times> 'c"

text \<open>
  \<^verbatim>\<open>struct xrt_cu\<close>: the four queues are lists of command handles with their
  counters, then the core, the flags and the two accumulators of \<^verbatim>\<open>xrt_cu_check\<close>.
  The per-CU latch is called \<open>cu_bad_state\<close> here, the scheduler's flag of the same
  name in the source keeps the name \<open>bad_state\<close> below.
\<close>

record 'c xrt_cu =
  pq :: "nat list"
  num_pq :: u32
  rq :: "nat list"
  num_rq :: u32
  sq :: "nat list"
  num_sq :: u32
  cq :: "nat list"
  num_cq :: u32
  core :: 'c
  stop :: u32
  cu_bad_state :: bool
  done_cnt :: u32
  ready_cnt :: u32
  run_timeout :: "64 word"
  funcs :: "'c xcu_funcs"

definition xrt_cu_config :: "'c xrt_cu \<Rightarrow> u32 list \<Rightarrow> nat \<Rightarrow> int \<Rightarrow> 'c xrt_cu" where
  "xrt_cu_config xcu data sz type = xcu\<lparr>core := configure (funcs xcu) (core xcu) data sz type\<rparr>"

definition xrt_cu_start :: "'c xrt_cu \<Rightarrow> 'c xrt_cu" where
  "xrt_cu_start xcu = xcu\<lparr>core := start (funcs xcu) (core xcu)\<rparr>"

text \<open>
  \<^verbatim>\<open>xrt_cu_check\<close>: a zeroed status is handed to the driver, then both counters are
  advanced by what the driver left in it.
\<close>

definition xrt_cu_check :: "'c xrt_cu \<Rightarrow> 'c xrt_cu" where
  "xrt_cu_check xcu =
     (let status = \<lparr>num_done = 0, num_ready = 0\<rparr>;
          (core', status') = check (funcs xcu) (core xcu) status
      in xcu\<lparr>core := core',
             done_cnt := done_cnt xcu + num_done status',
             ready_cnt := ready_cnt xcu + num_ready status'\<rparr>)"

definition xrt_cu_get_credit :: "'c xrt_cu \<Rightarrow> int \<times> 'c xrt_cu" where
  "xrt_cu_get_credit xcu =
     (let (r, core') = alloc_credit (funcs xcu) (core xcu) in (r, xcu\<lparr>core := core'\<rparr>))"

definition is_zero_credit :: "'c xrt_cu \<Rightarrow> bool \<times> 'c xrt_cu" where
  "is_zero_credit xcu =
     (let (r, core') = peek_credit (funcs xcu) (core xcu) in (r = 0, xcu\<lparr>core := core'\<rparr>))"

definition xrt_cu_put_credit :: "'c xrt_cu \<Rightarrow> u32 \<Rightarrow> 'c xrt_cu" where
  "xrt_cu_put_credit xcu count = xcu\<lparr>core := free_credit (funcs xcu) (core xcu) count\<rparr>"

text \<open>The deltas a call of \<^verbatim>\<open>xrt_cu_check\<close> gets from the driver.\<close>

definition check_deltas :: "'c xrt_cu \<Rightarrow> xcu_status" where
  "check_deltas xcu = snd (check (funcs xcu) (core xcu) \<lparr>num_done = 0, num_ready = 0\<rparr>)"

section \<open>Clients and contexts (xocl\_kds.c)\<close>

text \<open>
  Error numbers of \<^verbatim>\<open>errno.h\<close> and the poll flag of \<^verbatim>\<open>poll.h\<close>, with their Linux
  values. The functions return them negated, as the kernel does.
\<close>

definition ENOENT :: int where "ENOENT = 2"
definition ENOMEM :: int where "ENOMEM = 12"
definition EBUSY :: int where "EBUSY = 16"
definition EINVAL :: int where "EINVAL = 22"
definition EDEADLK :: int where "EDEADLK = 35"
definition POLLIN :: int where "POLLIN = 1"

type_synonym xuid_t = "128 word"

text \<open>
  \<^verbatim>\<open>struct in_kernel_cb\<close>, the callback of an in-kernel submission: the function
  (an address) and its argument.
\<close>

record in_kernel_cb =
  func :: nat
  data :: nat

datatype kds_type = KDS_CU | KDS_ERT

datatype kds_free_fn = Kds_free_command
datatype kds_notify_fn = Notify_execbuf

text \<open>
  \<^verbatim>\<open>struct kds_command\<close>, the fields xocl\_kds.c touches. Pointers are addresses:
  \<open>client\<close> is the address of the owning client, \<open>execbuf\<close> the address of the
  command packet, \<open>gem_obj\<close> the buffer object; \<open>inkern_cb\<close> is \<open>None\<close> for the
  null pointer.
\<close>

record kds_command =
  client :: nat
  execbuf :: nat
  gem_obj :: nat
  inkern_cb :: "in_kernel_cb option"
  type :: kds_type
  cb_free :: "kds_free_fn option"
  cb_notify_host :: "kds_notify_fn option"

text \<open>
  What the functions do to their collaborators is kept as a list of calls, in the
  order the code makes them: the bitstream lock of the ICAP, the finalisation and
  the release of a client, the reference of a buffer object, the work queue, the
  wait queue of a client, the release of a command and the scheduler core.
\<close>

datatype effect =
    Xocl_icap_lock_bitstream xuid_t int
  | Xocl_icap_unlock_bitstream xuid_t
  | Kds_fini_client
  | Kfree_client
  | Gem_object_put nat
  | Schedule_work in_kernel_cb
  | Wake_up_interruptible nat
  | Cb_free kds_command
  | Kds_add_command kds_command

text \<open>
  \<^verbatim>\<open>struct kds_client\<close>, the fields xocl\_kds.c reads and writes: \<open>xclbin_id\<close> is
  \<open>None\<close> for the null pointer and \<open>Some u\<close> for an allocated copy of \<open>u\<close>;
  \<open>num_ctx\<close> is the number of contexts the client holds; \<open>event\<close> is the
  \<^verbatim>\<open>atomic_t\<close> counter, a signed 32-bit integer.
\<close>

record kds_client =
  xclbin_id :: "xuid_t option"
  num_ctx :: nat
  event :: "32 word"

datatype xocl_cu_index = XOCL_CTX_VIRT_CU_INDEX | XOCL_CU_INDEX u32
datatype xocl_ctx_flags = XOCL_CTX_SHARED | XOCL_CTX_EXCLUSIVE | XOCL_CTX_FLAGS_OTHER u32
datatype xocl_ctx_op = XOCL_CTX_OP_ALLOC_CTX | XOCL_CTX_OP_FREE_CTX | XOCL_CTX_OP_OTHER u32

text \<open>
  \<^verbatim>\<open>struct drm_xocl_ctx\<close>, the argument of the context ioctl. Its \<^verbatim>\<open>xclbin_id\<close>
  is called \<open>ctx_xclbin_id\<close> to tell it from the client's field.
\<close>

record drm_xocl_ctx =
  op :: xocl_ctx_op
  ctx_xclbin_id :: xuid_t
  cu_index :: xocl_cu_index
  flags :: xocl_ctx_flags

datatype kds_cu_idx = CU_CTX_VIRT_CU | CU_IDX u32
datatype kds_ctx_flags = CU_CTX_EXCLUSIVE | CU_CTX_SHARED

record kds_ctx_info =
  cu_idx :: kds_cu_idx
  info_flags :: kds_ctx_flags

definition xocl_ctx_to_info :: "drm_xocl_ctx \<Rightarrow> kds_ctx_info" where
  "xocl_ctx_to_info args =
     \<lparr>cu_idx = (case cu_index args of
                  XOCL_CTX_VIRT_CU_INDEX \<Rightarrow> CU_CTX_VIRT_CU
                | XOCL_CU_INDEX i \<Rightarrow> CU_IDX i),
      info_flags = (if flags args = XOCL_CTX_EXCLUSIVE then CU_CTX_EXCLUSIVE
                    else CU_CTX_SHARED)\<rparr>"

text \<open>
  Modelled from the spec: \<^verbatim>\<open>kds_add_context\<close> and \<^verbatim>\<open>kds_del_context\<close> live in
  kds\_core.c, which is not among the sources. The spec (4.3) lets the mode rules
  decide whether a context is admitted, "otherwise insert \<open>(cu_index, mode)\<close> into
  the client's map", and has close "remove \<open>(cu_index, mode)\<close>". The verdict of the
  scheduler (which depends on what the other clients hold) is the argument \<open>verdict\<close>,
  \<open>0\<close> for success and an error number otherwise; a refused call leaves the client as
  it was, an admitted one adds or removes one context.
\<close>

definition kds_add_context :: "int \<Rightarrow> kds_client \<Rightarrow> kds_ctx_info \<Rightarrow> int \<times> kds_client" where
  "kds_add_context verdict cl info =
     (if verdict = 0 then (0, cl\<lparr>num_ctx := num_ctx cl + 1\<rparr>) else (verdict, cl))"

definition kds_del_context :: "int \<Rightarrow> kds_client \<Rightarrow> kds_ctx_info \<Rightarrow> int \<times> kds_client" where
  "kds_del_context verdict cl info =
     (if verdict = 0 then (0, cl\<lparr>num_ctx := num_ctx cl - 1\<rparr>) else (verdict, cl))"

text \<open>
  The code after the label \<^verbatim>\<open>out\<close> of \<^verbatim>\<open>xocl_add_context\<close>: with no context held,
  the identifier is freed and cleared and the bitstream unlocked.
\<close>

definition xocl_add_context_out ::
  "int \<Rightarrow> kds_client \<Rightarrow> drm_xocl_ctx \<Rightarrow> effect list \<Rightarrow> int \<times> kds_client \<times> effect list" where
  "xocl_add_context_out ret cl args effs =
     (if num_ctx cl = 0
      then (ret, cl\<lparr>xclbin_id := None\<rparr>,
            effs @ [Xocl_icap_unlock_bitstream (ctx_xclbin_id args)])
      else (ret, cl, effs))"

text \<open>
  \<^verbatim>\<open>xocl_add_context\<close>. The three outcomes the function does not decide itself are
  arguments: \<open>lock_ret\<close> is what \<^verbatim>\<open>xocl_icap_lock_bitstream\<close> returns, \<open>vzalloc_ok\<close>
  whether the allocation of the identifier succeeds, \<open>verdict\<close> what the scheduler
  says to the context. The result is the return value, the client afterwards and
  the calls made.
\<close>

definition xocl_add_context ::
  "int \<Rightarrow> bool \<Rightarrow> int \<Rightarrow> kds_client \<Rightarrow> drm_xocl_ctx \<Rightarrow> int \<times> kds_client \<times> effect list" where
  "xocl_add_context lock_ret vzalloc_ok verdict cl args =
     (if num_ctx cl = 0 then
        (let effs = [Xocl_icap_lock_bitstream (ctx_xclbin_id args) lock_ret] in
         if lock_ret \<noteq> 0 then xocl_add_context_out lock_ret cl args effs
         else if \<not> vzalloc_ok then xocl_add_context_out (- ENOMEM) cl args effs
         else
           (let cl1 = cl\<lparr>xclbin_id := Some (ctx_xclbin_id args)\<rparr>;
                (ret, cl2) = kds_add_context verdict cl1 (xocl_ctx_to_info args)
            in xocl_add_context_out ret cl2 args effs))
      else
        (let (ret, cl2) = kds_add_context verdict cl (xocl_ctx_to_info args)
         in xocl_add_context_out ret cl2 args []))"

text \<open>\<^verbatim>\<open>xocl_del_context\<close>, with the scheduler's verdict on the removal as argument.\<close>

definition xocl_del_context ::
  "int \<Rightarrow> kds_client \<Rightarrow> drm_xocl_ctx \<Rightarrow> int \<times> kds_client \<times> effect list" where
  "xocl_del_context verdict cl args =
     (case xclbin_id cl of
        None \<Rightarrow> (- EINVAL, cl, [])
      | Some uuid \<Rightarrow>
          if uuid \<noteq> ctx_xclbin_id args then (- EBUSY, cl, [])
          else
            (let (ret, cl1) = kds_del_context verdict cl (xocl_ctx_to_info args) in
             if ret \<noteq> 0 then (ret, cl1, [])
             else if num_ctx cl1 = 0
             then (ret, cl1\<lparr>xclbin_id := None\<rparr>,
                   [Xocl_icap_unlock_bitstream (ctx_xclbin_id args)])
             else (ret, cl1, [])))"

text \<open>
  \<^verbatim>\<open>xocl_context_ioctl\<close> dispatches on the operation; the three outcomes are those
  of \<open>xocl_add_context\<close> (the verdict serves both operations).
\<close>

definition xocl_context_ioctl ::
  "int \<Rightarrow> bool \<Rightarrow> int \<Rightarrow> kds_client \<Rightarrow> drm_xocl_ctx \<Rightarrow> int \<times> kds_client \<times> effect list" where
  "xocl_context_ioctl lock_ret vzalloc_ok verdict cl args =
     (case op args of
        XOCL_CTX_OP_ALLOC_CTX \<Rightarrow> xocl_add_context lock_ret vzalloc_ok verdict cl args
      | XOCL_CTX_OP_FREE_CTX \<Rightarrow> xocl_del_context verdict cl args
      | XOCL_CTX_OP_OTHER _ \<Rightarrow> (- EINVAL, cl, []))"

text \<open>
  \<^verbatim>\<open>xocl_create_client\<close>: the client comes zeroed from \<^verbatim>\<open>kzalloc\<close>; \<open>kzalloc_ok\<close>
  and the return value of \<^verbatim>\<open>kds_init_client\<close> are arguments. The result is the
  return value and what is stored through \<^verbatim>\<open>priv\<close> (\<open>None\<close>: nothing stored).
\<close>

definition xocl_create_client :: "bool \<Rightarrow> int \<Rightarrow> int \<times> kds_client option" where
  "xocl_create_client kzalloc_ok init_ret =
     (if \<not> kzalloc_ok then (- ENOMEM, None)
      else if init_ret \<noteq> 0 then (init_ret, None)
      else (0, Some \<lparr>xclbin_id = None, num_ctx = 0, event = 0\<rparr>))"

text \<open>
  \<^verbatim>\<open>xocl_destroy_client\<close>: the client is finalised, its bitstream lock released
  when an identifier is recorded, and the client freed. The result is the list of
  calls; the client is gone afterwards.
\<close>

definition xocl_destroy_client :: "kds_client \<Rightarrow> effect list" where
  "xocl_destroy_client cl =
     [Kds_fini_client]
     @ (case xclbin_id cl of
          Some uuid \<Rightarrow> [Xocl_icap_unlock_bitstream uuid]
        | None \<Rightarrow> [])
     @ [Kfree_client]"

text \<open>
  \<^verbatim>\<open>atomic_dec_if_positive\<close> of the kernel: the result is the old value minus one,
  and the counter is written only when that result is not negative. The pair is the
  result and the counter afterwards.
\<close>

definition atomic_dec_if_positive :: "32 word \<Rightarrow> 32 word \<times> 32 word" where
  "atomic_dec_if_positive v = (let dec = v - 1 in (dec, if 0 \<le>s dec then dec else v))"

text \<open>
  \<^verbatim>\<open>xocl_poll_client\<close>: \<^verbatim>\<open>poll_wait\<close> only registers the wait queue with the poll
  table and is left out; the result is the returned mask and the client afterwards.
\<close>

definition xocl_poll_client :: "kds_client \<Rightarrow> int \<times> kds_client" where
  "xocl_poll_client cl =
     (let (ev, v) = atomic_dec_if_positive (event cl);
          cl1 = cl\<lparr>event := v\<rparr>
      in if ev = - 1 then (0, cl1) else (POLLIN, cl1))"

text \<open>
  A run of context operations on one client file: each operation carries the
  outcomes of the collaborators it meets. The state is what \<^verbatim>\<open>driver_priv\<close> points
  to (\<open>None\<close> once the client is destroyed) and the calls made so far.
\<close>

datatype client_op =
    Open_context int bool int drm_xocl_ctx
  | Close_context int drm_xocl_ctx
  | Destroy_client

fun client_step ::
  "kds_client option \<times> effect list \<Rightarrow> client_op \<Rightarrow> kds_client option \<times> effect list" where
  "client_step (Some cl, tr) (Open_context lock_ret vzalloc_ok verdict args) =
     (case xocl_add_context lock_ret vzalloc_ok verdict cl args of
        (ret, cl1, effs) \<Rightarrow> (Some cl1, tr @ effs))"
| "client_step (Some cl, tr) (Close_context verdict args) =
     (case xocl_del_context verdict cl args of
        (ret, cl1, effs) \<Rightarrow> (Some cl1, tr @ effs))"
| "client_step (Some cl, tr) Destroy_client = (None, tr @ xocl_destroy_client cl)"
| "client_step (None, tr) _ = (None, tr)"

definition run_client :: "client_op list \<Rightarrow> kds_client option \<times> effect list" where
  "run_client ops = foldl client_step (snd (xocl_create_client True 0), []) ops"

text \<open>
  A client holds the bitstream lock when an identifier is recorded; the invariant
  ties that to the number of contexts. A destroyed client holds nothing.
\<close>

definition holds_lock :: "kds_client \<Rightarrow> bool" where
  "holds_lock cl = (xclbin_id cl \<noteq> None)"

definition lock_invariant :: "kds_client option \<Rightarrow> bool" where
  "lock_invariant p = (case p of None \<Rightarrow> True | Some cl \<Rightarrow> holds_lock cl = (0 < num_ctx cl))"

section \<open>Command buffers, submission and completion (xocl\_kds.c)\<close>

text \<open>
  Modelled from the spec: the enumerations \<^verbatim>\<open>ert_cmd_state\<close> and \<^verbatim>\<open>ert_cmd_opcode\<close>
  (ert.h) and \<^verbatim>\<open>kds_status\<close> (kds\_command.h) are declared outside the sources. The
  spec names the states of the buffer's state word and of a command (new, queued,
  running, completed, error, timeout, abort) and the opcodes \<^verbatim>\<open>CONFIGURE\<close> and
  \<^verbatim>\<open>START_CU\<close>. The \<^verbatim>\<open>int status\<close> handed to the notify callback is one of the four
  statuses the code compares it with, or any other integer.
\<close>

datatype ert_cmd_state =
    ERT_CMD_STATE_NEW
  | ERT_CMD_STATE_QUEUED
  | ERT_CMD_STATE_RUNNING
  | ERT_CMD_STATE_COMPLETED
  | ERT_CMD_STATE_ERROR
  | ERT_CMD_STATE_ABORT
  | ERT_CMD_STATE_TIMEOUT

datatype ert_cmd_opcode = ERT_START_CU | ERT_CONFIGURE | ERT_OPCODE_OTHER nat

datatype kds_status = KDS_COMPLETED | KDS_ERROR | KDS_TIMEOUT | KDS_ABORT | KDS_STATUS_OTHER int

text \<open>\<^verbatim>\<open>struct ert_packet\<close>: the header fields of a command buffer that the code uses.\<close>

record ert_packet =
  state :: ert_cmd_state
  count :: nat
  opcode :: ert_cmd_opcode

text \<open>
  The memory the two paths share: the clients and the command packets, each by
  address, and the calls made so far.
\<close>

record kds_world =
  clients :: "nat \<Rightarrow> kds_client"
  packets :: "nat \<Rightarrow> ert_packet"
  trace :: "effect list"

definition set_state :: "nat \<Rightarrow> ert_cmd_state \<Rightarrow> kds_world \<Rightarrow> kds_world" where
  "set_state a st w = w\<lparr>packets := (packets w)(a := (packets w a)\<lparr>state := st\<rparr>)\<rparr>"

definition emit :: "effect \<Rightarrow> kds_world \<Rightarrow> kds_world" where
  "emit e w = w\<lparr>trace := trace w @ [e]\<rparr>"

definition atomic_inc_event :: "nat \<Rightarrow> kds_world \<Rightarrow> kds_world" where
  "atomic_inc_event a w = w\<lparr>clients := (clients w)(a := (clients w a)\<lparr>event := event (clients w a) + 1\<rparr>)\<rparr>"

text \<open>
  \<^verbatim>\<open>notify_execbuf\<close>: the chain of comparisons writes the state word, the buffer
  object is put, then the completion goes to the in-kernel callback or to the
  client's counter and wait queue.
\<close>

definition notify_execbuf :: "kds_command \<Rightarrow> kds_status \<Rightarrow> kds_world \<Rightarrow> kds_world" where
  "notify_execbuf xcmd status w =
     (let w1 = (if status = KDS_COMPLETED then set_state (execbuf xcmd) ERT_CMD_STATE_COMPLETED w
                else if status = KDS_ERROR then set_state (execbuf xcmd) ERT_CMD_STATE_ERROR w
                else if status = KDS_TIMEOUT then set_state (execbuf xcmd) ERT_CMD_STATE_TIMEOUT w
                else if status = KDS_ABORT then set_state (execbuf xcmd) ERT_CMD_STATE_ABORT w
                else w);
          w2 = emit (Gem_object_put (gem_obj xcmd)) w1
      in case inkern_cb xcmd of
           Some cb \<Rightarrow> emit (Schedule_work cb) w2
         | None \<Rightarrow> emit (Wake_up_interruptible (client xcmd)) (atomic_inc_event (client xcmd) w2))"

text \<open>
  \<^verbatim>\<open>struct drm_xocl_execbuf\<close> and, for the in-kernel variant, the callback fields of
  \<^verbatim>\<open>struct drm_xocl_execbuf_cb\<close> (\<open>cb_func = 0\<close> is the null pointer).
\<close>

record drm_xocl_execbuf =
  exec_bo_handle :: u32
  cb_func :: nat
  cb_data :: nat

text \<open>
  A buffer object as \<^verbatim>\<open>xocl_gem_object_lookup\<close> finds it: its address, whether
  \<^verbatim>\<open>xocl_bo_execbuf\<close> holds of it, and the address of the packet it maps.
\<close>

record xocl_bo =
  obj :: nat
  bo_execbuf :: bool
  vmapping :: nat

text \<open>\<^verbatim>\<open>struct kds_sched\<close>, the two flags the submission reads.\<close>

record kds_sched =
  bad_state :: bool
  ert_disable :: bool

text \<open>
  The collaborators of the submission, as arguments: the handle table of the DRM
  file, the allocator of the scheduler (\<open>None\<close>: out of memory), the two converters
  from a packet to a command, whether \<^verbatim>\<open>kzalloc\<close> of the callback record succeeds,
  and the return value of \<^verbatim>\<open>kds_add_command\<close>.
\<close>

record xocl_env =
  xocl_gem_object_lookup :: "u32 \<Rightarrow> xocl_bo option"
  kds_alloc_command :: "nat \<Rightarrow> nat \<Rightarrow> kds_command option"
  cfg_ecmd2xcmd :: "nat \<Rightarrow> ert_packet \<Rightarrow> kds_command \<Rightarrow> kds_command"
  start_krnl_ecmd2xcmd :: "nat \<Rightarrow> ert_packet \<Rightarrow> kds_command \<Rightarrow> kds_command"
  kzalloc_ok :: bool
  kds_add_command :: "kds_command \<Rightarrow> int"

text \<open>
  \<^verbatim>\<open>xocl_command_ioctl\<close>, for the client at address \<open>cl\<close>. The result is the return
  value and the memory afterwards.
\<close>

definition xocl_command_ioctl ::
  "xocl_env \<Rightarrow> kds_sched \<Rightarrow> nat \<Rightarrow> drm_xocl_execbuf \<Rightarrow> bool \<Rightarrow> kds_world \<Rightarrow> int \<times> kds_world" where
  "xocl_command_ioctl env kds cl args in_kernel w =
     (if xclbin_id (clients w cl) = None then (- EINVAL, w)
      else if bad_state kds then (- EDEADLK, w)
      else
        (case xocl_gem_object_lookup env (exec_bo_handle args) of
           None \<Rightarrow> (- ENOENT, w)
         | Some xobj \<Rightarrow>
             if \<not> bo_execbuf xobj then (- EINVAL, w)
             else
               (let ecmd = vmapping xobj;
                    w1 = set_state ecmd ERT_CMD_STATE_NEW w
                in case kds_alloc_command env cl (count (packets w1 ecmd) * 4) of
                     None \<Rightarrow> (- ENOMEM, w1)
                   | Some x0 \<Rightarrow>
                       (let x1 = x0\<lparr>cb_free := Some Kds_free_command\<rparr>;
                            x2 = (if opcode (packets w1 ecmd) = ERT_CONFIGURE
                                  then cfg_ecmd2xcmd env ecmd (packets w1 ecmd) x1
                                  else if opcode (packets w1 ecmd) = ERT_START_CU
                                  then start_krnl_ecmd2xcmd env ecmd (packets w1 ecmd) x1
                                  else x1);
                            x3 = x2\<lparr>type := (if ert_disable kds then KDS_CU else KDS_ERT)\<rparr>;
                            x4 = x3\<lparr>cb_notify_host := Some Notify_execbuf, gem_obj := obj xobj\<rparr>
                        in if in_kernel \<and> cb_func args \<noteq> 0
                           then (if \<not> kzalloc_ok env then (- ENOMEM, emit (Cb_free x4) w1)
                                 else (let x5 = x4\<lparr>inkern_cb :=
                                                      Some \<lparr>func = cb_func args, data = cb_data args\<rparr>\<rparr>
                                       in (kds_add_command env x5, emit (Kds_add_command x5) w1)))
                           else (kds_add_command env x4, emit (Kds_add_command x4) w1)))))"

text \<open>
  A run of completions and polls over the shared memory: \<open>Notify\<close> is a call of the
  notify callback of a command, \<open>Poll\<close> a poll of the client at an address.
\<close>

datatype world_op = Notify kds_command kds_status | Poll nat

fun world_step :: "kds_world \<Rightarrow> world_op \<Rightarrow> kds_world" where
  "world_step w (Notify xcmd status) = notify_execbuf xcmd status w"
| "world_step w (Poll a) = w\<lparr>clients := (clients w)(a := snd (xocl_poll_client (clients w a)))\<rparr>"

text \<open>Every event counter is between 0 and \<open>k\<close>.\<close>

definition events_within :: "nat \<Rightarrow> kds_world \<Rightarrow> bool" where
  "events_within k w = (\<forall>a. 0 \<le> sint (event (clients w a)) \<and> sint (event (clients w a)) \<le> int k)"

section \<open>Credits of a CU backend\<close>

text \<open>
  \<^verbatim>\<open>struct xrt_cu_hls\<close> of xrt\_cu.h, the core of an HLS backend (the PLRAM core has
  the same two credit fields); the register mapping is left out.
\<close>

record xrt_cu_hls =
  max_credits :: int
  credits :: int
  run_cnts :: int
  ctrl_chain :: bool

text \<open>
  Modelled from the spec: the credit operations of a backend (the functions behind
  the pointers \<^verbatim>\<open>alloc_credit\<close>, \<^verbatim>\<open>free_credit\<close>, \<^verbatim>\<open>peek_credit\<close>) are not among the
  sources; xrt\_cu.h only declares the table. The spec (4.2): \<^verbatim>\<open>alloc_credit\<close> is an
  "attempt to reserve one credit; return the new available count (negative/zero if
  none was free)", \<^verbatim>\<open>free_credit(n)\<close> is "return n credits", \<^verbatim>\<open>peek_credit\<close> gives
  the remaining count and is "side-effect-free"; the spec (8) has \<^verbatim>\<open>alloc_credit\<close>
  followed by \<^verbatim>\<open>free_credit(1)\<close> restore the available count. So the attempt takes
  the count down by one and returns it: a result below zero tells the caller that no
  credit was free, and the \<^verbatim>\<open>free_credit(1)\<close> that answers it brings the count back.
\<close>

definition cu_alloc_credit :: "xrt_cu_hls \<Rightarrow> int \<times> xrt_cu_hls" where
  "cu_alloc_credit h = (credits h - 1, h\<lparr>credits := credits h - 1\<rparr>)"

definition cu_free_credit :: "xrt_cu_hls \<Rightarrow> u32 \<Rightarrow> xrt_cu_hls" where
  "cu_free_credit h n = h\<lparr>credits := credits h + uint n\<rparr>"

definition cu_peek_credit :: "xrt_cu_hls \<Rightarrow> int \<times> xrt_cu_hls" where
  "cu_peek_credit h = (credits h, h)"

text \<open>A CU whose table carries these three operations; the other entries are free.\<close>

definition credit_backend :: "xrt_cu_hls xrt_cu \<Rightarrow> bool" where
  "credit_backend xcu =
     (alloc_credit (funcs xcu) = cu_alloc_credit
      \<and> free_credit (funcs xcu) = cu_free_credit
      \<and> peek_credit (funcs xcu) = cu_peek_credit)"

text \<open>\<open>n\<close> calls of \<^verbatim>\<open>is_zero_credit\<close> in a row, each on the CU the last one left.\<close>

definition peek_times :: "nat \<Rightarrow> 'c xrt_cu \<Rightarrow> 'c xrt_cu" where
  "peek_times n xcu = ((\<lambda>x. snd (is_zero_credit x)) ^^ n) xcu"

text \<open>
  An example CU over that backend, with empty queues and the given credit
  counters; the entries of its table that are not about credits leave the core alone.
\<close>

definition hls_cu :: "int \<Rightarrow> int \<Rightarrow> xrt_cu_hls xrt_cu" where
  "hls_cu m c =
     \<lparr>pq = [], num_pq = 0, rq = [], num_rq = 0, sq = [], num_sq = 0, cq = [], num_cq = 0,
      core = \<lparr>max_credits = m, credits = c, run_cnts = 0, ctrl_chain = False\<rparr>,
      stop = 0, cu_bad_state = False, done_cnt = 0, ready_cnt = 0, run_timeout = 0,
      funcs = \<lparr>alloc_credit = cu_alloc_credit, free_credit = cu_free_credit,
               peek_credit = cu_peek_credit, configure = (\<lambda>h d s t. h), start = (\<lambda>h. h),
               check = (\<lambda>h s. (h, s)), reset = (\<lambda>h. h), reset_done = (\<lambda>h. (1, h)),
               enable_intr = (\<lambda>h m. h), disable_intr = (\<lambda>h m. h),
               clear_intr = (\<lambda>h. (0, h))\<rparr>\<rparr>"

section \<open>Accumulation of the check deltas\<close>

lemma xrt_cu_check_done_cnt:
  "done_cnt (xrt_cu_check xcu) = done_cnt xcu + num_done (check_deltas xcu)"
  by (simp add: xrt_cu_check_def check_deltas_def Let_def split: prod.split)

lemma xrt_cu_check_ready_cnt:
  "ready_cnt (xrt_cu_check xcu) = ready_cnt xcu + num_ready (check_deltas xcu)"
  by (simp add: xrt_cu_check_def check_deltas_def Let_def split: prod.split)

lemma xrt_cu_check_core:
  "core (xrt_cu_check xcu) = fst (check (funcs xcu) (core xcu) \<lparr>num_done = 0, num_ready = 0\<rparr>)"
  by (simp add: xrt_cu_check_def Let_def split: prod.split)

text \<open>
  C7. After \<^verbatim>\<open>xrt_cu_check\<close>, \<open>done_cnt\<close> is its prior value plus the \<open>num_done\<close> the
  driver's \<open>check\<close> returned and \<open>ready_cnt\<close> is its prior value plus the returned
  \<open>num_ready\<close>. The sums are the \<^verbatim>\<open>u32\<close> sums of the code: read as numbers, they are
  taken modulo \<open>2 ^ 32\<close>.
\<close>

theorem xrt_cu_check_accumulates:
  "done_cnt (xrt_cu_check xcu) = done_cnt xcu + num_done (check_deltas xcu)
   \<and> ready_cnt (xrt_cu_check xcu) = ready_cnt xcu + num_ready (check_deltas xcu)
   \<and> unat (done_cnt (xrt_cu_check xcu))
       = (unat (done_cnt xcu) + unat (num_done (check_deltas xcu))) mod 2 ^ 32
   \<and> unat (ready_cnt (xrt_cu_check xcu))
       = (unat (ready_cnt xcu) + unat (num_ready (check_deltas xcu))) mod 2 ^ 32"
  by (simp add: xrt_cu_check_done_cnt xrt_cu_check_ready_cnt unat_word_ariths)

section \<open>The bitstream lock follows the contexts\<close>

lemma xocl_add_context_invariant:
  "holds_lock cl = (0 < num_ctx cl) \<Longrightarrow> xocl_add_context l v k cl a = (ret, cl1, effs)
   \<Longrightarrow> holds_lock cl1 = (0 < num_ctx cl1)"
  by (auto simp: xocl_add_context_def xocl_add_context_out_def kds_add_context_def
      holds_lock_def Let_def split: if_splits)

lemma xocl_del_context_invariant:
  "holds_lock cl = (0 < num_ctx cl) \<Longrightarrow> xocl_del_context k cl a = (ret, cl1, effs)
   \<Longrightarrow> holds_lock cl1 = (0 < num_ctx cl1)"
  by (auto simp: xocl_del_context_def kds_del_context_def holds_lock_def Let_def
      split: if_splits option.splits)

lemma client_step_invariant:
  assumes inv: "lock_invariant (fst s)"
  shows "lock_invariant (fst (client_step s x))"
proof (cases s)
  case (Pair p tr)
  show ?thesis
  proof (cases p)
    case None
    with Pair show ?thesis by (simp add: lock_invariant_def)
  next
    case (Some cl)
    with Pair inv have h: "holds_lock cl = (0 < num_ctx cl)" by (simp add: lock_invariant_def)
    show ?thesis
    proof (cases x)
      case (Open_context l v k a)
      obtain ret cl1 effs where r: "xocl_add_context l v k cl a = (ret, cl1, effs)"
        by (cases "xocl_add_context l v k cl a") auto
      from xocl_add_context_invariant [OF h r] Pair Some Open_context r show ?thesis
        by (simp add: lock_invariant_def)
    next
      case (Close_context k a)
      obtain ret cl1 effs where r: "xocl_del_context k cl a = (ret, cl1, effs)"
        by (cases "xocl_del_context k cl a") auto
      from xocl_del_context_invariant [OF h r] Pair Some Close_context r show ?thesis
        by (simp add: lock_invariant_def)
    next
      case Destroy_client
      with Pair Some show ?thesis by (simp add: lock_invariant_def)
    qed
  qed
qed

lemma foldl_client_step_invariant:
  "lock_invariant (fst s) \<Longrightarrow> lock_invariant (fst (foldl client_step s ops))"
  by (induction ops arbitrary: s) (auto simp: client_step_invariant)

lemma run_client_invariant: "lock_invariant (fst (run_client ops))"
  unfolding run_client_def
  by (rule foldl_client_step_invariant)
     (simp add: xocl_create_client_def lock_invariant_def holds_lock_def)

lemma first_open_acquires:
  "num_ctx cl = 0 \<Longrightarrow> fst (xocl_add_context l v k cl a) = 0 \<Longrightarrow>
   xocl_add_context l v k cl a
     = (0, cl\<lparr>xclbin_id := Some (ctx_xclbin_id a), num_ctx := 1\<rparr>,
        [Xocl_icap_lock_bitstream (ctx_xclbin_id a) 0])"
  by (auto simp: xocl_add_context_def xocl_add_context_out_def kds_add_context_def ENOMEM_def
      Let_def split: if_splits)

lemma emptying_close_releases:
  "fst (xocl_del_context k cl a) = 0 \<Longrightarrow> num_ctx (fst (snd (xocl_del_context k cl a))) = 0 \<Longrightarrow>
   xclbin_id (fst (snd (xocl_del_context k cl a))) = None
   \<and> snd (snd (xocl_del_context k cl a)) = [Xocl_icap_unlock_bitstream (ctx_xclbin_id a)]"
  by (auto simp: xocl_del_context_def kds_del_context_def EINVAL_def EBUSY_def
      Let_def split: if_splits option.splits)

lemma destroy_releases:
  "xclbin_id cl = Some u \<Longrightarrow>
   xocl_destroy_client cl = [Kds_fini_client, Xocl_icap_unlock_bitstream u, Kfree_client]"
  by (simp add: xocl_destroy_client_def)

text \<open>
  C1. Along every sequence of open, close and destroy operations on a client, the
  client holds the bitstream lock (an identifier is recorded) exactly when it holds
  a context; every single operation keeps that. The first successful open records
  the identifier, having locked the bitstream; a successful close that leaves no
  context clears it and unlocks; destroying a client that holds the lock unlocks.
\<close>

theorem bitstream_lock_iff_contexts:
  "lock_invariant (fst (run_client ops))
   \<and> (lock_invariant p \<longrightarrow> lock_invariant (fst (client_step (p, tr) x)))
   \<and> (num_ctx cl = 0 \<and> fst (xocl_add_context l v k cl a) = 0 \<longrightarrow>
        xocl_add_context l v k cl a
          = (0, cl\<lparr>xclbin_id := Some (ctx_xclbin_id a), num_ctx := 1\<rparr>,
             [Xocl_icap_lock_bitstream (ctx_xclbin_id a) 0]))
   \<and> (fst (xocl_del_context k cl a) = 0 \<and> num_ctx (fst (snd (xocl_del_context k cl a))) = 0 \<longrightarrow>
        xclbin_id (fst (snd (xocl_del_context k cl a))) = None
        \<and> snd (snd (xocl_del_context k cl a)) = [Xocl_icap_unlock_bitstream (ctx_xclbin_id a)])
   \<and> (\<forall>u. xclbin_id cl = Some u \<longrightarrow>
        xocl_destroy_client cl = [Kds_fini_client, Xocl_icap_unlock_bitstream u, Kfree_client])"
proof (intro conjI impI allI)
  show "lock_invariant (fst (run_client ops))" by (rule run_client_invariant)
next
  assume "lock_invariant p"
  then show "lock_invariant (fst (client_step (p, tr) x))"
    using client_step_invariant [of "(p, tr)" x] by simp
next
  assume "num_ctx cl = 0 \<and> fst (xocl_add_context l v k cl a) = 0"
  then show "xocl_add_context l v k cl a
          = (0, cl\<lparr>xclbin_id := Some (ctx_xclbin_id a), num_ctx := 1\<rparr>,
             [Xocl_icap_lock_bitstream (ctx_xclbin_id a) 0])"
    by (simp add: first_open_acquires)
next
  assume h: "fst (xocl_del_context k cl a) = 0 \<and> num_ctx (fst (snd (xocl_del_context k cl a))) = 0"
  then show "xclbin_id (fst (snd (xocl_del_context k cl a))) = None"
    by (simp add: emptying_close_releases)
  from h show "snd (snd (xocl_del_context k cl a)) = [Xocl_icap_unlock_bitstream (ctx_xclbin_id a)]"
    by (simp add: emptying_close_releases)
next
  fix u assume "xclbin_id cl = Some u"
  then show "xocl_destroy_client cl = [Kds_fini_client, Xocl_icap_unlock_bitstream u, Kfree_client]"
    by (rule destroy_releases)
qed

theorem bitstream_lock_iff_contexts_witness:
  "lock_invariant (fst (run_client
      [Open_context 0 True 0 \<lparr>op = XOCL_CTX_OP_ALLOC_CTX, ctx_xclbin_id = 7,
                               cu_index = XOCL_CU_INDEX 0, flags = XOCL_CTX_SHARED\<rparr>,
       Open_context 0 True 0 \<lparr>op = XOCL_CTX_OP_ALLOC_CTX, ctx_xclbin_id = 7,
                               cu_index = XOCL_CTX_VIRT_CU_INDEX, flags = XOCL_CTX_SHARED\<rparr>,
       Close_context 0 \<lparr>op = XOCL_CTX_OP_FREE_CTX, ctx_xclbin_id = 7,
                         cu_index = XOCL_CU_INDEX 0, flags = XOCL_CTX_SHARED\<rparr>]))
   \<and> run_client
      [Open_context 0 True 0 \<lparr>op = XOCL_CTX_OP_ALLOC_CTX, ctx_xclbin_id = 7,
                               cu_index = XOCL_CU_INDEX 0, flags = XOCL_CTX_SHARED\<rparr>,
       Open_context 0 True 0 \<lparr>op = XOCL_CTX_OP_ALLOC_CTX, ctx_xclbin_id = 7,
                               cu_index = XOCL_CTX_VIRT_CU_INDEX, flags = XOCL_CTX_SHARED\<rparr>,
       Close_context 0 \<lparr>op = XOCL_CTX_OP_FREE_CTX, ctx_xclbin_id = 7,
                         cu_index = XOCL_CU_INDEX 0, flags = XOCL_CTX_SHARED\<rparr>]
     = (Some \<lparr>xclbin_id = Some 7, num_ctx = 1, event = 0\<rparr>, [Xocl_icap_lock_bitstream 7 0])
   \<and> lock_invariant (Some \<lparr>xclbin_id = Some 7, num_ctx = 1, event = 0\<rparr>)
   \<and> client_step (Some \<lparr>xclbin_id = Some 7, num_ctx = 1, event = 0\<rparr>, []) Destroy_client
       = (None, [Kds_fini_client, Xocl_icap_unlock_bitstream 7, Kfree_client])
   \<and> xocl_add_context 0 True 0 \<lparr>xclbin_id = None, num_ctx = 0, event = 0\<rparr>
        \<lparr>op = XOCL_CTX_OP_ALLOC_CTX, ctx_xclbin_id = 7,
         cu_index = XOCL_CU_INDEX 0, flags = XOCL_CTX_SHARED\<rparr>
       = (0, \<lparr>xclbin_id = Some 7, num_ctx = 1, event = 0\<rparr>, [Xocl_icap_lock_bitstream 7 0])
   \<and> xocl_del_context 0 \<lparr>xclbin_id = Some 7, num_ctx = 1, event = 0\<rparr>
        \<lparr>op = XOCL_CTX_OP_FREE_CTX, ctx_xclbin_id = 7,
         cu_index = XOCL_CU_INDEX 0, flags = XOCL_CTX_SHARED\<rparr>
       = (0, \<lparr>xclbin_id = None, num_ctx = 0, event = 0\<rparr>, [Xocl_icap_unlock_bitstream 7])"
  using bitstream_lock_iff_contexts
    [of "[Open_context 0 True 0 \<lparr>op = XOCL_CTX_OP_ALLOC_CTX, ctx_xclbin_id = 7,
                               cu_index = XOCL_CU_INDEX 0, flags = XOCL_CTX_SHARED\<rparr>,
       Open_context 0 True 0 \<lparr>op = XOCL_CTX_OP_ALLOC_CTX, ctx_xclbin_id = 7,
                               cu_index = XOCL_CTX_VIRT_CU_INDEX, flags = XOCL_CTX_SHARED\<rparr>,
       Close_context 0 \<lparr>op = XOCL_CTX_OP_FREE_CTX, ctx_xclbin_id = 7,
                         cu_index = XOCL_CU_INDEX 0, flags = XOCL_CTX_SHARED\<rparr>]"
        "Some \<lparr>xclbin_id = Some 7, num_ctx = 1, event = 0\<rparr>" "[]" Destroy_client
        "\<lparr>xclbin_id = None, num_ctx = 0, event = 0\<rparr>" 0 True 0
        "\<lparr>op = XOCL_CTX_OP_ALLOC_CTX, ctx_xclbin_id = 7,
         cu_index = XOCL_CU_INDEX 0, flags = XOCL_CTX_SHARED\<rparr>"]
  by (simp add: run_client_def xocl_create_client_def xocl_add_context_def
      xocl_add_context_out_def kds_add_context_def xocl_del_context_def kds_del_context_def
      xocl_destroy_client_def lock_invariant_def holds_lock_def Let_def)

section \<open>A failed first open\<close>

text \<open>
  C9. When \<^verbatim>\<open>xocl_add_context\<close> returns an error for a client that held no context,
  the client afterwards has no identifier recorded and still holds no context; its
  event counter is untouched, and a client that had no identifier recorded before is
  left exactly as it was.
\<close>

theorem failed_first_open_leaves_client:
  assumes "num_ctx cl = 0" and "fst (xocl_add_context l v k cl a) \<noteq> 0"
  shows "xclbin_id (fst (snd (xocl_add_context l v k cl a))) = None
       \<and> num_ctx (fst (snd (xocl_add_context l v k cl a))) = 0
       \<and> event (fst (snd (xocl_add_context l v k cl a))) = event cl
       \<and> (if xclbin_id cl = None then fst (snd (xocl_add_context l v k cl a)) = cl else True)"
  using assms
  by (auto simp: xocl_add_context_def xocl_add_context_out_def kds_add_context_def
      Let_def split: if_splits)

theorem failed_first_open_leaves_client_witness:
  "num_ctx \<lparr>xclbin_id = None, num_ctx = 0, event = 3\<rparr> = 0
   \<and> xocl_add_context 0 True (- 22) \<lparr>xclbin_id = None, num_ctx = 0, event = 3\<rparr>
        \<lparr>op = XOCL_CTX_OP_ALLOC_CTX, ctx_xclbin_id = 7,
         cu_index = XOCL_CU_INDEX 0, flags = XOCL_CTX_EXCLUSIVE\<rparr>
       = (- 22, \<lparr>xclbin_id = None, num_ctx = 0, event = 3\<rparr>,
          [Xocl_icap_lock_bitstream 7 0, Xocl_icap_unlock_bitstream 7])
   \<and> fst (snd (xocl_add_context (- 16) True 0 \<lparr>xclbin_id = None, num_ctx = 0, event = 3\<rparr>
        \<lparr>op = XOCL_CTX_OP_ALLOC_CTX, ctx_xclbin_id = 7,
         cu_index = XOCL_CU_INDEX 0, flags = XOCL_CTX_EXCLUSIVE\<rparr>))
       = \<lparr>xclbin_id = None, num_ctx = 0, event = 3\<rparr>"
proof -
  let ?c = "\<lparr>xclbin_id = None, num_ctx = 0, event = 3\<rparr>"
  let ?a = "\<lparr>op = XOCL_CTX_OP_ALLOC_CTX, ctx_xclbin_id = 7,
         cu_index = XOCL_CU_INDEX 0, flags = XOCL_CTX_EXCLUSIVE\<rparr>"
  have n: "num_ctx ?c = 0" by simp
  have r: "xocl_add_context 0 True (- 22) ?c ?a
       = (- 22, ?c, [Xocl_icap_lock_bitstream 7 0, Xocl_icap_unlock_bitstream 7])"
    by (simp add: xocl_add_context_def xocl_add_context_out_def kds_add_context_def Let_def)
  have f: "fst (xocl_add_context (- 16) True 0 ?c ?a) \<noteq> 0"
    by (simp add: xocl_add_context_def xocl_add_context_out_def Let_def)
  from failed_first_open_leaves_client [OF n f] n r show ?thesis by simp
qed

section \<open>Closing a context on the wrong bitstream\<close>

text \<open>
  C5, as the code has it. \<^verbatim>\<open>xocl_del_context\<close> on a client whose recorded
  identifier differs from the one passed returns \<open>-EBUSY\<close>; on a client with no
  identifier recorded (no context opened) it returns \<open>-EINVAL\<close>. Either way the
  client is unchanged and nothing is unlocked.
\<close>

theorem xocl_del_context_rejects:
  "(xclbin_id cl = None \<longrightarrow> xocl_del_context k cl a = (- EINVAL, cl, []))
   \<and> (\<forall>u. xclbin_id cl = Some u \<and> u \<noteq> ctx_xclbin_id a \<longrightarrow>
         xocl_del_context k cl a = (- EBUSY, cl, []))"
  by (simp add: xocl_del_context_def)

theorem xocl_del_context_rejects_witness:
  "xocl_del_context 0 \<lparr>xclbin_id = Some 7, num_ctx = 1, event = 0\<rparr>
      \<lparr>op = XOCL_CTX_OP_FREE_CTX, ctx_xclbin_id = 5,
       cu_index = XOCL_CU_INDEX 0, flags = XOCL_CTX_SHARED\<rparr>
     = (- 16, \<lparr>xclbin_id = Some 7, num_ctx = 1, event = 0\<rparr>, [])"
  using xocl_del_context_rejects
    [of "\<lparr>xclbin_id = Some 7, num_ctx = 1, event = 0\<rparr>" 0
        "\<lparr>op = XOCL_CTX_OP_FREE_CTX, ctx_xclbin_id = 5,
          cu_index = XOCL_CU_INDEX 0, flags = XOCL_CTX_SHARED\<rparr>"]
  by (simp add: EBUSY_def)

text \<open>
  The specification rejects with \<open>BUSY\<close> whenever the client's identifier is not
  the passed one. A client that has opened no context has no identifier, so it is
  not the passed one, and the call returns \<open>-EINVAL\<close>, not \<open>-EBUSY\<close>.
\<close>

theorem xocl_del_context_busy_counterexample:
  "xclbin_id \<lparr>xclbin_id = None, num_ctx = 0, event = 0\<rparr>
     \<noteq> Some (ctx_xclbin_id \<lparr>op = XOCL_CTX_OP_FREE_CTX, ctx_xclbin_id = 5,
                            cu_index = XOCL_CU_INDEX 0, flags = XOCL_CTX_SHARED\<rparr>)
   \<and> fst (xocl_del_context 0 \<lparr>xclbin_id = None, num_ctx = 0, event = 0\<rparr>
        \<lparr>op = XOCL_CTX_OP_FREE_CTX, ctx_xclbin_id = 5,
         cu_index = XOCL_CU_INDEX 0, flags = XOCL_CTX_SHARED\<rparr>) = - EINVAL
   \<and> fst (xocl_del_context 0 \<lparr>xclbin_id = None, num_ctx = 0, event = 0\<rparr>
        \<lparr>op = XOCL_CTX_OP_FREE_CTX, ctx_xclbin_id = 5,
         cu_index = XOCL_CU_INDEX 0, flags = XOCL_CTX_SHARED\<rparr>) \<noteq> - EBUSY"
  by (simp add: xocl_del_context_def EINVAL_def EBUSY_def)

section \<open>Polling a client\<close>

lemma sint_dec: "0 < sint (e :: 32 word) \<Longrightarrow> sint (e - 1) = sint e - 1"
proof -
  assume h: "0 < sint e"
  have "sint e < 2 ^ 31" using sint_lt [of e] by simp
  with h have "signed_take_bit 31 (sint e - 1) = sint e - 1"
    by (intro signed_take_bit_int_eq_self) auto
  then show ?thesis by (simp add: sint_word_diff)
qed

lemma dec_eq_minus_one: "(e - 1 = (- 1 :: 32 word)) = (e = 0)"
  by auto

lemma xocl_create_client_event:
  "xocl_create_client kz ir = (0, Some cl) \<Longrightarrow> event cl = 0"
  by (auto simp: xocl_create_client_def split: if_splits)

lemma xocl_poll_client_nonneg:
  "0 \<le>s event cl \<Longrightarrow> 0 \<le>s event (snd (xocl_poll_client cl))"
  by (simp add: xocl_poll_client_def atomic_dec_if_positive_def Let_def)

lemma atomic_inc_nonneg:
  "0 \<le>s (e :: 32 word) \<Longrightarrow> e \<noteq> 0x7FFFFFFF \<Longrightarrow> 0 \<le>s e + 1"
proof -
  assume h: "0 \<le>s e" and n: "e \<noteq> 0x7FFFFFFF"
  have "sint e \<noteq> 2147483647"
  proof
    assume "sint e = 2147483647"
    then have "sint e = sint (0x7FFFFFFF :: 32 word)" by simp
    then have "e = 0x7FFFFFFF" by (metis word_eq_iff_signed)
    with n show False by simp
  qed
  moreover have "sint e < 2 ^ 31" using sint_lt [of e] by simp
  ultimately have b: "sint e + 1 < 2 ^ 31" by simp
  from h have "0 \<le> sint e" by (simp add: word_sle_eq)
  with b have "signed_take_bit 31 (sint e + 1) = sint e + 1"
    by (intro signed_take_bit_int_eq_self) auto
  then have "sint (e + 1) = sint e + 1" by (simp add: sint_word_add)
  with \<open>0 \<le> sint e\<close> show ?thesis by (simp add: word_sle_eq)
qed

lemma xocl_poll_client_reads_nonzero: "(fst (xocl_poll_client cl) = POLLIN) = (event cl \<noteq> 0)"
  by (simp add: xocl_poll_client_def atomic_dec_if_positive_def Let_def POLLIN_def
      dec_eq_minus_one)

text \<open>
  C6, as the code has it. For a client whose event counter is not negative,
  \<^verbatim>\<open>xocl_poll_client\<close> returns \<open>POLLIN\<close> exactly when the counter is positive; a poll that returns
  \<open>POLLIN\<close> takes exactly one off the counter and changes nothing else, and a poll
  that does not returns 0 and leaves the client as it was. The counter of a client
  is never negative short of \<open>2 ^ 31\<close> completions and polls: it starts at zero, and
  the section on runs below follows it through completions and polls.
\<close>

theorem xocl_poll_client_readable:
  assumes "0 \<le>s event cl"
  shows "(fst (xocl_poll_client cl) = POLLIN) = (0 <s event cl)
    \<and> (if fst (xocl_poll_client cl) = POLLIN
        then snd (xocl_poll_client cl) = cl\<lparr>event := event cl - 1\<rparr>
             \<and> sint (event (snd (xocl_poll_client cl))) = sint (event cl) - 1
        else fst (xocl_poll_client cl) = 0 \<and> snd (xocl_poll_client cl) = cl)"
proof (cases "event cl = 0")
  case True
  then show ?thesis
    by (simp add: xocl_poll_client_def atomic_dec_if_positive_def Let_def POLLIN_def
        word_sle_eq word_sless_alt)
next
  case False
  with assms have pos: "0 < sint (event cl)"
    by (simp add: word_sle_eq signed_eq_0_iff order_less_le)
  then have d: "sint (event cl - 1) = sint (event cl) - 1" by (rule sint_dec)
  with pos have nn: "0 \<le>s event cl - 1" by (simp add: word_sle_eq)
  from False have ne: "event cl - 1 \<noteq> - 1" by (simp add: dec_eq_minus_one)
  from pos have ps: "0 <s event cl" by (simp add: word_sless_alt)
  from nn ne ps d show ?thesis
    by (simp add: xocl_poll_client_def atomic_dec_if_positive_def Let_def POLLIN_def)
qed

theorem xocl_poll_client_readable_witness:
  "0 \<le>s event \<lparr>xclbin_id = Some 7, num_ctx = 1, event = 2\<rparr>
   \<and> xocl_poll_client \<lparr>xclbin_id = Some 7, num_ctx = 1, event = 2\<rparr>
       = (POLLIN, \<lparr>xclbin_id = Some 7, num_ctx = 1, event = 1\<rparr>)
   \<and> 0 \<le>s event \<lparr>xclbin_id = Some 7, num_ctx = 1, event = 0\<rparr>
   \<and> xocl_poll_client \<lparr>xclbin_id = Some 7, num_ctx = 1, event = 0\<rparr>
       = (0, \<lparr>xclbin_id = Some 7, num_ctx = 1, event = 0\<rparr>)"
proof -
  have h2: "0 \<le>s event \<lparr>xclbin_id = Some 7, num_ctx = 1, event = 2\<rparr>"
    by (simp add: word_sle_eq)
  have h0: "0 \<le>s event \<lparr>xclbin_id = Some 7, num_ctx = 1, event = 0\<rparr>"
    by (simp add: word_sle_eq)
  from xocl_poll_client_readable [OF h2] xocl_poll_client_readable [OF h0] h2 h0
  show ?thesis
    by (auto simp: word_sless_alt prod_eq_iff)
qed

section \<open>The shared memory\<close>

lemma packets_emit [simp]: "packets (emit e w) = packets w"
  and clients_emit [simp]: "clients (emit e w) = clients w"
  and trace_emit [simp]: "trace (emit e w) = trace w @ [e]"
  by (simp_all add: emit_def)

lemma packets_set_state [simp]:
  "packets (set_state a st w) = (packets w)(a := (packets w a)\<lparr>state := st\<rparr>)"
  and clients_set_state [simp]: "clients (set_state a st w) = clients w"
  and trace_set_state [simp]: "trace (set_state a st w) = trace w"
  by (simp_all add: set_state_def)

lemma packets_atomic_inc_event [simp]: "packets (atomic_inc_event a w) = packets w"
  and clients_atomic_inc_event [simp]:
    "clients (atomic_inc_event a w)
       = (clients w)(a := (clients w a)\<lparr>event := event (clients w a) + 1\<rparr>)"
  and trace_atomic_inc_event [simp]: "trace (atomic_inc_event a w) = trace w"
  by (simp_all add: atomic_inc_event_def)

section \<open>Submission\<close>

text \<open>
  C2, as the code has it. \<^verbatim>\<open>xocl_command_ioctl\<close> first looks at the client: with no
  context opened (no identifier recorded) it returns \<open>-EINVAL\<close>. Only for a client
  with a context does the bad-state flag decide: when it is set the call returns
  \<open>-EDEADLK\<close>. Both rejections leave the memory as it was.
\<close>

theorem xocl_command_ioctl_rejects:
  "(xclbin_id (clients w cl) = None \<longrightarrow>
      xocl_command_ioctl env kds cl args in_kernel w = (- EINVAL, w))
   \<and> (xclbin_id (clients w cl) \<noteq> None \<and> bad_state kds \<longrightarrow>
        xocl_command_ioctl env kds cl args in_kernel w = (- EDEADLK, w))"
  by (simp add: xocl_command_ioctl_def)

theorem xocl_command_ioctl_rejects_witness:
  "xocl_command_ioctl
     \<lparr>xocl_gem_object_lookup = (\<lambda>h. None), kds_alloc_command = (\<lambda>c n. None),
      cfg_ecmd2xcmd = (\<lambda>a p x. x), start_krnl_ecmd2xcmd = (\<lambda>a p x. x),
      kzalloc_ok = True, kds_add_command = (\<lambda>x. 0)\<rparr>
     \<lparr>bad_state = True, ert_disable = True\<rparr> 0
     \<lparr>exec_bo_handle = 1, cb_func = 0, cb_data = 0\<rparr> False
     \<lparr>clients = (\<lambda>a. \<lparr>xclbin_id = Some 7, num_ctx = 1, event = 0\<rparr>),
      packets = (\<lambda>a. \<lparr>state = ERT_CMD_STATE_QUEUED, count = 0, opcode = ERT_START_CU\<rparr>),
      trace = []\<rparr>
   = (- 35,
     \<lparr>clients = (\<lambda>a. \<lparr>xclbin_id = Some 7, num_ctx = 1, event = 0\<rparr>),
      packets = (\<lambda>a. \<lparr>state = ERT_CMD_STATE_QUEUED, count = 0, opcode = ERT_START_CU\<rparr>),
      trace = []\<rparr>)"
  using xocl_command_ioctl_rejects
    [of "\<lparr>clients = (\<lambda>a. \<lparr>xclbin_id = Some 7, num_ctx = 1, event = 0\<rparr>),
      packets = (\<lambda>a. \<lparr>state = ERT_CMD_STATE_QUEUED, count = 0, opcode = ERT_START_CU\<rparr>),
      trace = []\<rparr>" 0 _ "\<lparr>bad_state = True, ert_disable = True\<rparr>"]
  by (simp add: EDEADLK_def)

text \<open>
  The specification puts the bad-state check first. The code does not: with the
  bad-state flag set and no context opened, the call returns \<open>-EINVAL\<close>, not
  \<open>-EDEADLK\<close>.
\<close>

theorem xocl_command_ioctl_deadlock_counterexample:
  "bad_state \<lparr>bad_state = True, ert_disable = True\<rparr>
   \<and> fst (xocl_command_ioctl
     \<lparr>xocl_gem_object_lookup = (\<lambda>h. None), kds_alloc_command = (\<lambda>c n. None),
      cfg_ecmd2xcmd = (\<lambda>a p x. x), start_krnl_ecmd2xcmd = (\<lambda>a p x. x),
      kzalloc_ok = True, kds_add_command = (\<lambda>x. 0)\<rparr>
     \<lparr>bad_state = True, ert_disable = True\<rparr> 0
     \<lparr>exec_bo_handle = 1, cb_func = 0, cb_data = 0\<rparr> False
     \<lparr>clients = (\<lambda>a. \<lparr>xclbin_id = None, num_ctx = 0, event = 0\<rparr>),
      packets = (\<lambda>a. \<lparr>state = ERT_CMD_STATE_QUEUED, count = 0, opcode = ERT_START_CU\<rparr>),
      trace = []\<rparr>) = - EINVAL
   \<and> - EINVAL \<noteq> - EDEADLK"
  by (simp add: xocl_command_ioctl_def EINVAL_def EDEADLK_def)

section \<open>Completion\<close>

lemma notify_execbuf_trace:
  "trace (notify_execbuf xcmd status w) =
     trace w @ [Gem_object_put (gem_obj xcmd),
                (case inkern_cb xcmd of Some cb \<Rightarrow> Schedule_work cb
                 | None \<Rightarrow> Wake_up_interruptible (client xcmd))]"
  by (simp add: notify_execbuf_def Let_def split: option.split)

lemma notify_execbuf_clients:
  "clients (notify_execbuf xcmd status w) =
     (case inkern_cb xcmd of Some cb \<Rightarrow> clients w
      | None \<Rightarrow> (clients w)(client xcmd := (clients w (client xcmd))
                     \<lparr>event := event (clients w (client xcmd)) + 1\<rparr>))"
  by (simp add: notify_execbuf_def Let_def split: option.split)

lemma notify_execbuf_packets:
  "packets (notify_execbuf xcmd status w) =
     (case status of
        KDS_COMPLETED \<Rightarrow> (packets w)(execbuf xcmd :=
                            (packets w (execbuf xcmd))\<lparr>state := ERT_CMD_STATE_COMPLETED\<rparr>)
      | KDS_ERROR \<Rightarrow> (packets w)(execbuf xcmd :=
                            (packets w (execbuf xcmd))\<lparr>state := ERT_CMD_STATE_ERROR\<rparr>)
      | KDS_TIMEOUT \<Rightarrow> (packets w)(execbuf xcmd :=
                            (packets w (execbuf xcmd))\<lparr>state := ERT_CMD_STATE_TIMEOUT\<rparr>)
      | KDS_ABORT \<Rightarrow> (packets w)(execbuf xcmd :=
                            (packets w (execbuf xcmd))\<lparr>state := ERT_CMD_STATE_ABORT\<rparr>)
      | KDS_STATUS_OTHER n \<Rightarrow> packets w)"
  by (simp add: notify_execbuf_def Let_def split: option.split kds_status.split)

text \<open>
  C3. For each of the four terminal statuses \<^verbatim>\<open>notify_execbuf\<close> (a) writes the
  matching state into the state word of the command's packet, (b) puts the buffer
  object of the command, and (c) with an in-kernel callback attached schedules its
  work and leaves the clients alone, and without one adds one to the event counter
  of the owning client and wakes its wait queue. Nothing else is called.
\<close>

theorem notify_execbuf_terminal:
  "state (packets (notify_execbuf xcmd KDS_COMPLETED w) (execbuf xcmd)) = ERT_CMD_STATE_COMPLETED
   \<and> state (packets (notify_execbuf xcmd KDS_ERROR w) (execbuf xcmd)) = ERT_CMD_STATE_ERROR
   \<and> state (packets (notify_execbuf xcmd KDS_TIMEOUT w) (execbuf xcmd)) = ERT_CMD_STATE_TIMEOUT
   \<and> state (packets (notify_execbuf xcmd KDS_ABORT w) (execbuf xcmd)) = ERT_CMD_STATE_ABORT
   \<and> (status \<in> {KDS_COMPLETED, KDS_ERROR, KDS_TIMEOUT, KDS_ABORT} \<longrightarrow>
        (case inkern_cb xcmd of
           Some cb \<Rightarrow>
             trace (notify_execbuf xcmd status w)
               = trace w @ [Gem_object_put (gem_obj xcmd), Schedule_work cb]
             \<and> clients (notify_execbuf xcmd status w) = clients w
         | None \<Rightarrow>
             trace (notify_execbuf xcmd status w)
               = trace w @ [Gem_object_put (gem_obj xcmd), Wake_up_interruptible (client xcmd)]
             \<and> clients (notify_execbuf xcmd status w)
               = (clients w)(client xcmd := (clients w (client xcmd))
                     \<lparr>event := event (clients w (client xcmd)) + 1\<rparr>)))"
  by (simp add: notify_execbuf_trace notify_execbuf_clients notify_execbuf_packets
      split: option.split)

theorem notify_execbuf_terminal_witness:
  "KDS_TIMEOUT \<in> {KDS_COMPLETED, KDS_ERROR, KDS_TIMEOUT, KDS_ABORT}
   \<and> trace (notify_execbuf
        \<lparr>client = 4, execbuf = 9, gem_obj = 2, inkern_cb = None, type = KDS_CU,
         cb_free = Some Kds_free_command, cb_notify_host = Some Notify_execbuf\<rparr>
        KDS_TIMEOUT
        \<lparr>clients = (\<lambda>a. \<lparr>xclbin_id = Some 7, num_ctx = 1, event = 0\<rparr>),
         packets = (\<lambda>a. \<lparr>state = ERT_CMD_STATE_NEW, count = 0, opcode = ERT_START_CU\<rparr>),
         trace = []\<rparr>)
       = [Gem_object_put 2, Wake_up_interruptible 4]
   \<and> event (clients (notify_execbuf
        \<lparr>client = 4, execbuf = 9, gem_obj = 2, inkern_cb = None, type = KDS_CU,
         cb_free = Some Kds_free_command, cb_notify_host = Some Notify_execbuf\<rparr>
        KDS_TIMEOUT
        \<lparr>clients = (\<lambda>a. \<lparr>xclbin_id = Some 7, num_ctx = 1, event = 0\<rparr>),
         packets = (\<lambda>a. \<lparr>state = ERT_CMD_STATE_NEW, count = 0, opcode = ERT_START_CU\<rparr>),
         trace = []\<rparr>) 4) = 1
   \<and> state (packets (notify_execbuf
        \<lparr>client = 4, execbuf = 9, gem_obj = 2, inkern_cb = None, type = KDS_CU,
         cb_free = Some Kds_free_command, cb_notify_host = Some Notify_execbuf\<rparr>
        KDS_TIMEOUT
        \<lparr>clients = (\<lambda>a. \<lparr>xclbin_id = Some 7, num_ctx = 1, event = 0\<rparr>),
         packets = (\<lambda>a. \<lparr>state = ERT_CMD_STATE_NEW, count = 0, opcode = ERT_START_CU\<rparr>),
         trace = []\<rparr>) 9) = ERT_CMD_STATE_TIMEOUT"
  using notify_execbuf_terminal
    [of "\<lparr>client = 4, execbuf = 9, gem_obj = 2, inkern_cb = None, type = KDS_CU,
         cb_free = Some Kds_free_command, cb_notify_host = Some Notify_execbuf\<rparr>"
        "\<lparr>clients = (\<lambda>a. \<lparr>xclbin_id = Some 7, num_ctx = 1, event = 0\<rparr>),
         packets = (\<lambda>a. \<lparr>state = ERT_CMD_STATE_NEW, count = 0, opcode = ERT_START_CU\<rparr>),
         trace = []\<rparr>" KDS_TIMEOUT]
  by simp

text \<open>
  C10. With a status that is none of the four, \<^verbatim>\<open>notify_execbuf\<close> leaves every
  packet (so the state word) as it was, and still puts the buffer object and
  delivers the completion: the calls it makes and what it does to the clients are
  those of a call with a terminal status.
\<close>

theorem notify_execbuf_other_status:
  assumes "status \<notin> {KDS_COMPLETED, KDS_ERROR, KDS_TIMEOUT, KDS_ABORT}"
  shows "packets (notify_execbuf xcmd status w) = packets w
    \<and> trace (notify_execbuf xcmd status w) = trace (notify_execbuf xcmd KDS_COMPLETED w)
    \<and> clients (notify_execbuf xcmd status w) = clients (notify_execbuf xcmd KDS_COMPLETED w)
    \<and> trace (notify_execbuf xcmd status w) =
        trace w @ [Gem_object_put (gem_obj xcmd),
                (case inkern_cb xcmd of Some cb \<Rightarrow> Schedule_work cb
                 | None \<Rightarrow> Wake_up_interruptible (client xcmd))]
    \<and> clients (notify_execbuf xcmd status w) =
        (case inkern_cb xcmd of Some cb \<Rightarrow> clients w
         | None \<Rightarrow> (clients w)(client xcmd := (clients w (client xcmd))
                     \<lparr>event := event (clients w (client xcmd)) + 1\<rparr>))"
  using assms
  by (cases status)
     (simp_all add: notify_execbuf_trace notify_execbuf_clients notify_execbuf_packets)

theorem notify_execbuf_other_status_witness:
  "KDS_STATUS_OTHER 9 \<notin> {KDS_COMPLETED, KDS_ERROR, KDS_TIMEOUT, KDS_ABORT}
   \<and> packets (notify_execbuf
        \<lparr>client = 4, execbuf = 9, gem_obj = 2,
         inkern_cb = Some \<lparr>func = 5, data = 6\<rparr>, type = KDS_CU,
         cb_free = Some Kds_free_command, cb_notify_host = Some Notify_execbuf\<rparr>
        (KDS_STATUS_OTHER 9)
        \<lparr>clients = (\<lambda>a. \<lparr>xclbin_id = Some 7, num_ctx = 1, event = 0\<rparr>),
         packets = (\<lambda>a. \<lparr>state = ERT_CMD_STATE_NEW, count = 0, opcode = ERT_START_CU\<rparr>),
         trace = []\<rparr>) 9
       = \<lparr>state = ERT_CMD_STATE_NEW, count = 0, opcode = ERT_START_CU\<rparr>
   \<and> trace (notify_execbuf
        \<lparr>client = 4, execbuf = 9, gem_obj = 2,
         inkern_cb = Some \<lparr>func = 5, data = 6\<rparr>, type = KDS_CU,
         cb_free = Some Kds_free_command, cb_notify_host = Some Notify_execbuf\<rparr>
        (KDS_STATUS_OTHER 9)
        \<lparr>clients = (\<lambda>a. \<lparr>xclbin_id = Some 7, num_ctx = 1, event = 0\<rparr>),
         packets = (\<lambda>a. \<lparr>state = ERT_CMD_STATE_NEW, count = 0, opcode = ERT_START_CU\<rparr>),
         trace = []\<rparr>)
       = [Gem_object_put 2, Schedule_work \<lparr>func = 5, data = 6\<rparr>]"
proof -
  have h: "KDS_STATUS_OTHER 9 \<notin> {KDS_COMPLETED, KDS_ERROR, KDS_TIMEOUT, KDS_ABORT}" by simp
  from notify_execbuf_other_status [OF h,
      of "\<lparr>client = 4, execbuf = 9, gem_obj = 2,
         inkern_cb = Some \<lparr>func = 5, data = 6\<rparr>, type = KDS_CU,
         cb_free = Some Kds_free_command, cb_notify_host = Some Notify_execbuf\<rparr>"
        "\<lparr>clients = (\<lambda>a. \<lparr>xclbin_id = Some 7, num_ctx = 1, event = 0\<rparr>),
         packets = (\<lambda>a. \<lparr>state = ERT_CMD_STATE_NEW, count = 0, opcode = ERT_START_CU\<rparr>),
         trace = []\<rparr>"]
  show ?thesis by (simp add: notify_execbuf_trace)
qed

section \<open>Event counters along a run\<close>

text \<open>
  Completions add one to a counter and polls never take it below zero, so along a
  run of fewer than \<open>2 ^ 31\<close> operations from counters at zero no counter turns
  negative.
\<close>

lemma sint_inc:
  "0 \<le> sint (e :: 32 word) \<Longrightarrow> sint e < 2 ^ 31 - 1 \<Longrightarrow> sint (e + 1) = sint e + 1"
proof -
  assume "0 \<le> sint e" and "sint e < 2 ^ 31 - 1"
  then have "signed_take_bit 31 (sint e + 1) = sint e + 1"
    by (intro signed_take_bit_int_eq_self) auto
  then show ?thesis by (simp add: sint_word_add)
qed

lemma poll_event_sint:
  assumes "0 \<le> sint (event cl)"
  shows "0 \<le> sint (event (snd (xocl_poll_client cl)))
   \<and> sint (event (snd (xocl_poll_client cl))) \<le> sint (event cl)"
proof (cases "0 \<le>s event cl - 1")
  case True
  show ?thesis
  proof (cases "event cl = 0")
    case True
    with assms show ?thesis
      by (simp add: xocl_poll_client_def atomic_dec_if_positive_def Let_def)
  next
    case False
    with assms have "0 < sint (event cl)"
      by (simp add: signed_eq_0_iff order_less_le)
    then have "sint (event cl - 1) = sint (event cl) - 1" by (rule sint_dec)
    with True False \<open>0 < sint (event cl)\<close> show ?thesis
      by (simp add: xocl_poll_client_def atomic_dec_if_positive_def Let_def)
  qed
next
  case False
  with assms show ?thesis
    by (simp add: xocl_poll_client_def atomic_dec_if_positive_def Let_def)
qed

lemma world_step_events_within:
  assumes "events_within k w" and "k < 2 ^ 31 - 1"
  shows "events_within (Suc k) (world_step w x)"
proof (cases x)
  case (Notify xcmd status)
  show ?thesis
    unfolding events_within_def
  proof
    fix a
    from assms have b: "0 \<le> sint (event (clients w a))" "sint (event (clients w a)) \<le> int k"
      by (simp_all add: events_within_def)
    with assms(2) have "sint (event (clients w a)) < 2 ^ 31 - 1" by simp
    with b have "sint (event (clients w a) + 1) = sint (event (clients w a)) + 1"
      by (simp add: sint_inc)
    with b Notify
    show "0 \<le> sint (event (clients (world_step w x) a))
          \<and> sint (event (clients (world_step w x) a)) \<le> int (Suc k)"
      by (auto simp: notify_execbuf_clients split: option.split)
  qed
next
  case (Poll p)
  show ?thesis
    unfolding events_within_def
  proof
    fix a
    from assms have b: "0 \<le> sint (event (clients w a))" "sint (event (clients w a)) \<le> int k"
      by (simp_all add: events_within_def)
    from poll_event_sint [OF b(1)] b Poll
    show "0 \<le> sint (event (clients (world_step w x) a))
          \<and> sint (event (clients (world_step w x) a)) \<le> int (Suc k)"
      by auto
  qed
qed

lemma run_events_within:
  "events_within k w \<Longrightarrow> k + length ops < 2 ^ 31 \<Longrightarrow>
   events_within (k + length ops) (foldl world_step w ops)"
proof (induction ops arbitrary: k w)
  case Nil
  then show ?case by simp
next
  case (Cons x ops)
  from Cons.prems have "k < 2 ^ 31 - 1" by simp
  with Cons.prems have "events_within (Suc k) (world_step w x)"
    by (simp add: world_step_events_within)
  moreover from Cons.prems have "Suc k + length ops < 2 ^ 31" by simp
  ultimately have "events_within (Suc k + length ops) (foldl world_step (world_step w x) ops)"
    by (rule Cons.IH)
  then show ?case by simp
qed

lemma fresh_clients_events_within:
  "events_within 0 \<lparr>clients = (\<lambda>a. \<lparr>xclbin_id = None, num_ctx = 0, event = 0\<rparr>),
                    packets = ps, trace = tr\<rparr>"
  by (simp add: events_within_def)

lemma run_events_nonneg:
  assumes "events_within 0 w" and "length ops < 2 ^ 31"
  shows "0 \<le>s event (clients (foldl world_step w ops) a)"
proof -
  from assms have "events_within (0 + length ops) (foldl world_step w ops)"
    by (intro run_events_within) simp_all
  then show ?thesis by (simp add: events_within_def word_sle_eq)
qed

lemma notify_run_event:
  "inkern_cb xcmd = None \<Longrightarrow>
   event (clients (foldl world_step w (replicate n (Notify xcmd status))) (client xcmd))
     = event (clients w (client xcmd)) + of_nat n"
proof (induction n arbitrary: w)
  case 0
  then show ?case by simp
next
  case (Suc n)
  from Suc.prems
  have "event (clients (notify_execbuf xcmd status w) (client xcmd))
          = event (clients w (client xcmd)) + 1"
    by (simp add: notify_execbuf_clients)
  with Suc show ?case by simp
qed

text \<open>
  The specification has a poll report readable exactly when the counter is positive.
  After \<open>2 ^ 31\<close> completions that no poll has taken, the counter of the client has
  wrapped to the least negative value: it is not positive, and the poll reports
  \<open>POLLIN\<close>. At the counter \<open>-1\<close> the poll reports \<open>POLLIN\<close> and takes nothing off.
\<close>

theorem xocl_poll_client_negative_counterexample:
  "event (clients (foldl world_step
       \<lparr>clients = (\<lambda>a. \<lparr>xclbin_id = Some 7, num_ctx = 1, event = 0\<rparr>),
        packets = (\<lambda>a. \<lparr>state = ERT_CMD_STATE_NEW, count = 0, opcode = ERT_START_CU\<rparr>),
        trace = []\<rparr>
       (replicate 2147483648
          (Notify \<lparr>client = 4, execbuf = 9, gem_obj = 2, inkern_cb = None, type = KDS_CU,
                   cb_free = Some Kds_free_command, cb_notify_host = Some Notify_execbuf\<rparr>
                  KDS_COMPLETED))) 4) = 0x80000000
   \<and> \<not> 0 <s (0x80000000 :: 32 word)
   \<and> xocl_poll_client \<lparr>xclbin_id = Some 7, num_ctx = 1, event = 0x80000000\<rparr>
       = (POLLIN, \<lparr>xclbin_id = Some 7, num_ctx = 1, event = 0x7FFFFFFF\<rparr>)
   \<and> \<not> 0 <s (- 1 :: 32 word)
   \<and> xocl_poll_client \<lparr>xclbin_id = Some 7, num_ctx = 1, event = - 1\<rparr>
       = (POLLIN, \<lparr>xclbin_id = Some 7, num_ctx = 1, event = - 1\<rparr>)"
proof -
  let ?x = "\<lparr>client = 4, execbuf = 9, gem_obj = 2, inkern_cb = None, type = KDS_CU,
                   cb_free = Some Kds_free_command, cb_notify_host = Some Notify_execbuf\<rparr>"
  have n: "inkern_cb ?x = None" by simp
  have r: "event (clients (foldl world_step
       \<lparr>clients = (\<lambda>a. \<lparr>xclbin_id = Some 7, num_ctx = 1, event = 0\<rparr>),
        packets = (\<lambda>a. \<lparr>state = ERT_CMD_STATE_NEW, count = 0, opcode = ERT_START_CU\<rparr>),
        trace = []\<rparr>
       (replicate 2147483648 (Notify ?x KDS_COMPLETED))) 4) = 0x80000000"
    using notify_run_event [OF n, of _ 2147483648 KDS_COMPLETED] by simp
  have p: "xocl_poll_client \<lparr>xclbin_id = Some 7, num_ctx = 1, event = 0x80000000\<rparr>
       = (POLLIN, \<lparr>xclbin_id = Some 7, num_ctx = 1, event = 0x7FFFFFFF\<rparr>)"
    by (simp add: xocl_poll_client_def atomic_dec_if_positive_def Let_def word_sle_eq)
  have q: "xocl_poll_client \<lparr>xclbin_id = Some 7, num_ctx = 1, event = - 1\<rparr>
       = (POLLIN, \<lparr>xclbin_id = Some 7, num_ctx = 1, event = - 1\<rparr>)"
    by (simp add: xocl_poll_client_def atomic_dec_if_positive_def Let_def word_sle_eq)
  from r p q show ?thesis by (simp add: word_sless_alt)
qed

section \<open>Who writes the state word\<close>

lemma xocl_command_ioctl_packets_eq:
  "packets (snd (xocl_command_ioctl env kds cl args in_kernel w)) =
     (case xocl_gem_object_lookup env (exec_bo_handle args) of
        None \<Rightarrow> packets w
      | Some xobj \<Rightarrow>
          if xclbin_id (clients w cl) = None \<or> bad_state kds \<or> \<not> bo_execbuf xobj
          then packets w
          else (packets w)(vmapping xobj :=
                 (packets w (vmapping xobj))\<lparr>state := ERT_CMD_STATE_NEW\<rparr>))"
  by (simp add: xocl_command_ioctl_def Let_def split: option.split)

lemma xocl_command_ioctl_packets:
  "packets (snd (xocl_command_ioctl env kds cl args in_kernel w)) a = packets w a
   \<or> packets (snd (xocl_command_ioctl env kds cl args in_kernel w)) a
        = (packets w a)\<lparr>state := ERT_CMD_STATE_NEW\<rparr>"
  by (simp add: xocl_command_ioctl_def Let_def split: option.split)

lemma notify_execbuf_never_new:
  "state (packets (notify_execbuf xcmd status w) a) = ERT_CMD_STATE_NEW \<Longrightarrow>
   state (packets w a) = ERT_CMD_STATE_NEW"
  by (cases status) (simp_all add: notify_execbuf_packets split: if_splits)

text \<open>
  C4, as the code has it. Two functions write the state word of a command buffer.
  \<^verbatim>\<open>xocl_command_ioctl\<close>, the submission, sets the state word of the buffer it is
  given to \<open>NEW\<close> once the client, the bad-state flag and the buffer have passed
  its checks, and writes nothing before that. \<^verbatim>\<open>notify_execbuf\<close>, the notify path,
  sets the state word of the command's buffer to \<open>COMPLETED\<close>, \<open>ERROR\<close>, \<open>TIMEOUT\<close>
  or \<open>ABORT\<close> as its status says, and writes nothing for another status. Neither
  writes any other value, any other packet or any other field.
\<close>

theorem state_word_writers:
  "packets (snd (xocl_command_ioctl env kds cl args in_kernel w)) =
     (case xocl_gem_object_lookup env (exec_bo_handle args) of
        None \<Rightarrow> packets w
      | Some xobj \<Rightarrow>
          if xclbin_id (clients w cl) = None \<or> bad_state kds \<or> \<not> bo_execbuf xobj
          then packets w
          else (packets w)(vmapping xobj :=
                 (packets w (vmapping xobj))\<lparr>state := ERT_CMD_STATE_NEW\<rparr>))
   \<and> (xclbin_id (clients w cl) \<noteq> None \<and> \<not> bad_state kds
        \<and> xocl_gem_object_lookup env (exec_bo_handle args) = Some xobj \<and> bo_execbuf xobj \<longrightarrow>
        state (packets (snd (xocl_command_ioctl env kds cl args in_kernel w)) (vmapping xobj))
          = ERT_CMD_STATE_NEW)
   \<and> packets (notify_execbuf xcmd status w) =
       (case status of
          KDS_COMPLETED \<Rightarrow> (packets w)(execbuf xcmd :=
                              (packets w (execbuf xcmd))\<lparr>state := ERT_CMD_STATE_COMPLETED\<rparr>)
        | KDS_ERROR \<Rightarrow> (packets w)(execbuf xcmd :=
                              (packets w (execbuf xcmd))\<lparr>state := ERT_CMD_STATE_ERROR\<rparr>)
        | KDS_TIMEOUT \<Rightarrow> (packets w)(execbuf xcmd :=
                              (packets w (execbuf xcmd))\<lparr>state := ERT_CMD_STATE_TIMEOUT\<rparr>)
        | KDS_ABORT \<Rightarrow> (packets w)(execbuf xcmd :=
                              (packets w (execbuf xcmd))\<lparr>state := ERT_CMD_STATE_ABORT\<rparr>)
        | KDS_STATUS_OTHER n \<Rightarrow> packets w)
   \<and> state (packets (notify_execbuf xcmd KDS_COMPLETED w) (execbuf xcmd)) = ERT_CMD_STATE_COMPLETED
   \<and> state (packets (notify_execbuf xcmd KDS_ERROR w) (execbuf xcmd)) = ERT_CMD_STATE_ERROR
   \<and> state (packets (notify_execbuf xcmd KDS_TIMEOUT w) (execbuf xcmd)) = ERT_CMD_STATE_TIMEOUT
   \<and> state (packets (notify_execbuf xcmd KDS_ABORT w) (execbuf xcmd)) = ERT_CMD_STATE_ABORT
   \<and> (\<forall>a. state (packets (snd (xocl_command_ioctl env kds cl args in_kernel w)) a)
          \<in> {state (packets w a), ERT_CMD_STATE_NEW}
        \<and> count (packets (snd (xocl_command_ioctl env kds cl args in_kernel w)) a)
            = count (packets w a)
        \<and> opcode (packets (snd (xocl_command_ioctl env kds cl args in_kernel w)) a)
            = opcode (packets w a))
   \<and> (\<forall>a. state (packets (notify_execbuf xcmd status w) a)
          \<in> {state (packets w a), ERT_CMD_STATE_COMPLETED, ERT_CMD_STATE_ERROR,
              ERT_CMD_STATE_TIMEOUT, ERT_CMD_STATE_ABORT}
        \<and> count (packets (notify_execbuf xcmd status w) a) = count (packets w a)
        \<and> opcode (packets (notify_execbuf xcmd status w) a) = opcode (packets w a))"
proof (intro conjI allI impI)
  show "packets (snd (xocl_command_ioctl env kds cl args in_kernel w)) =
     (case xocl_gem_object_lookup env (exec_bo_handle args) of
        None \<Rightarrow> packets w
      | Some xobj \<Rightarrow>
          if xclbin_id (clients w cl) = None \<or> bad_state kds \<or> \<not> bo_execbuf xobj
          then packets w
          else (packets w)(vmapping xobj :=
                 (packets w (vmapping xobj))\<lparr>state := ERT_CMD_STATE_NEW\<rparr>))"
    by (rule xocl_command_ioctl_packets_eq)
next
  assume "xclbin_id (clients w cl) \<noteq> None \<and> \<not> bad_state kds
        \<and> xocl_gem_object_lookup env (exec_bo_handle args) = Some xobj \<and> bo_execbuf xobj"
  then show "state (packets (snd (xocl_command_ioctl env kds cl args in_kernel w)) (vmapping xobj))
          = ERT_CMD_STATE_NEW"
    by (auto simp: xocl_command_ioctl_packets_eq)
next
  show "packets (notify_execbuf xcmd status w) =
       (case status of
          KDS_COMPLETED \<Rightarrow> (packets w)(execbuf xcmd :=
                              (packets w (execbuf xcmd))\<lparr>state := ERT_CMD_STATE_COMPLETED\<rparr>)
        | KDS_ERROR \<Rightarrow> (packets w)(execbuf xcmd :=
                              (packets w (execbuf xcmd))\<lparr>state := ERT_CMD_STATE_ERROR\<rparr>)
        | KDS_TIMEOUT \<Rightarrow> (packets w)(execbuf xcmd :=
                              (packets w (execbuf xcmd))\<lparr>state := ERT_CMD_STATE_TIMEOUT\<rparr>)
        | KDS_ABORT \<Rightarrow> (packets w)(execbuf xcmd :=
                              (packets w (execbuf xcmd))\<lparr>state := ERT_CMD_STATE_ABORT\<rparr>)
        | KDS_STATUS_OTHER n \<Rightarrow> packets w)"
    by (rule notify_execbuf_packets)
next
  show "state (packets (notify_execbuf xcmd KDS_COMPLETED w) (execbuf xcmd)) = ERT_CMD_STATE_COMPLETED"
    by (simp add: notify_execbuf_packets)
  show "state (packets (notify_execbuf xcmd KDS_ERROR w) (execbuf xcmd)) = ERT_CMD_STATE_ERROR"
    by (simp add: notify_execbuf_packets)
  show "state (packets (notify_execbuf xcmd KDS_TIMEOUT w) (execbuf xcmd)) = ERT_CMD_STATE_TIMEOUT"
    by (simp add: notify_execbuf_packets)
  show "state (packets (notify_execbuf xcmd KDS_ABORT w) (execbuf xcmd)) = ERT_CMD_STATE_ABORT"
    by (simp add: notify_execbuf_packets)
next
  fix a
  note p = xocl_command_ioctl_packets [of env kds cl args in_kernel w a]
  from p show "state (packets (snd (xocl_command_ioctl env kds cl args in_kernel w)) a)
          \<in> {state (packets w a), ERT_CMD_STATE_NEW}"
    by auto
  from p show "count (packets (snd (xocl_command_ioctl env kds cl args in_kernel w)) a)
            = count (packets w a)"
    by auto
  from p show "opcode (packets (snd (xocl_command_ioctl env kds cl args in_kernel w)) a)
            = opcode (packets w a)"
    by auto
next
  fix a
  show "state (packets (notify_execbuf xcmd status w) a)
          \<in> {state (packets w a), ERT_CMD_STATE_COMPLETED, ERT_CMD_STATE_ERROR,
              ERT_CMD_STATE_TIMEOUT, ERT_CMD_STATE_ABORT}"
    by (cases status) (simp_all add: notify_execbuf_packets)
  show "count (packets (notify_execbuf xcmd status w) a) = count (packets w a)"
    by (cases status) (simp_all add: notify_execbuf_packets)
  show "opcode (packets (notify_execbuf xcmd status w) a) = opcode (packets w a)"
    by (cases status) (simp_all add: notify_execbuf_packets)
qed

theorem state_word_writers_witness:
  "state (packets (snd (xocl_command_ioctl
       \<lparr>xocl_gem_object_lookup = (\<lambda>h. Some \<lparr>obj = 2, bo_execbuf = True, vmapping = 9\<rparr>),
        kds_alloc_command = (\<lambda>c n. None),
        cfg_ecmd2xcmd = (\<lambda>a p x. x\<lparr>execbuf := a\<rparr>),
        start_krnl_ecmd2xcmd = (\<lambda>a p x. x\<lparr>execbuf := a\<rparr>),
        kzalloc_ok = True, kds_add_command = (\<lambda>x. 0)\<rparr>
       \<lparr>bad_state = False, ert_disable = True\<rparr> 4
       \<lparr>exec_bo_handle = 1, cb_func = 0, cb_data = 0\<rparr> False
       \<lparr>clients = (\<lambda>a. \<lparr>xclbin_id = Some 7, num_ctx = 1, event = 0\<rparr>),
        packets = (\<lambda>a. \<lparr>state = ERT_CMD_STATE_ERROR, count = 16, opcode = ERT_START_CU\<rparr>),
        trace = []\<rparr>)) 9) = ERT_CMD_STATE_NEW
   \<and> state (packets (snd (xocl_command_ioctl
       \<lparr>xocl_gem_object_lookup = (\<lambda>h. Some \<lparr>obj = 2, bo_execbuf = True, vmapping = 9\<rparr>),
        kds_alloc_command = (\<lambda>c n. None),
        cfg_ecmd2xcmd = (\<lambda>a p x. x\<lparr>execbuf := a\<rparr>),
        start_krnl_ecmd2xcmd = (\<lambda>a p x. x\<lparr>execbuf := a\<rparr>),
        kzalloc_ok = True, kds_add_command = (\<lambda>x. 0)\<rparr>
       \<lparr>bad_state = False, ert_disable = True\<rparr> 4
       \<lparr>exec_bo_handle = 1, cb_func = 0, cb_data = 0\<rparr> False
       \<lparr>clients = (\<lambda>a. \<lparr>xclbin_id = Some 7, num_ctx = 1, event = 0\<rparr>),
        packets = (\<lambda>a. \<lparr>state = ERT_CMD_STATE_ERROR, count = 16, opcode = ERT_START_CU\<rparr>),
        trace = []\<rparr>)) 8) = ERT_CMD_STATE_ERROR
   \<and> state (packets (notify_execbuf
        \<lparr>client = 4, execbuf = 9, gem_obj = 2, inkern_cb = None, type = KDS_CU,
         cb_free = Some Kds_free_command, cb_notify_host = Some Notify_execbuf\<rparr>
        KDS_ABORT
        \<lparr>clients = (\<lambda>a. \<lparr>xclbin_id = Some 7, num_ctx = 1, event = 0\<rparr>),
         packets = (\<lambda>a. \<lparr>state = ERT_CMD_STATE_ERROR, count = 16, opcode = ERT_START_CU\<rparr>),
         trace = []\<rparr>) 9) = ERT_CMD_STATE_ABORT"
proof -
  let ?env = "\<lparr>xocl_gem_object_lookup = (\<lambda>h. Some \<lparr>obj = 2, bo_execbuf = True, vmapping = 9\<rparr>),
        kds_alloc_command = (\<lambda>c n. None),
        cfg_ecmd2xcmd = (\<lambda>a p x. x\<lparr>execbuf := a\<rparr>),
        start_krnl_ecmd2xcmd = (\<lambda>a p x. x\<lparr>execbuf := a\<rparr>),
        kzalloc_ok = True, kds_add_command = (\<lambda>x. 0)\<rparr>"
  let ?w = "\<lparr>clients = (\<lambda>a. \<lparr>xclbin_id = Some 7, num_ctx = 1, event = 0\<rparr>),
        packets = (\<lambda>a. \<lparr>state = ERT_CMD_STATE_ERROR, count = 16, opcode = ERT_START_CU\<rparr>),
        trace = []\<rparr>"
  let ?x = "\<lparr>client = 4, execbuf = 9, gem_obj = 2, inkern_cb = None, type = KDS_CU,
         cb_free = Some Kds_free_command, cb_notify_host = Some Notify_execbuf\<rparr>"
  from state_word_writers
    [of ?env "\<lparr>bad_state = False, ert_disable = True\<rparr>" 4
        "\<lparr>exec_bo_handle = 1, cb_func = 0, cb_data = 0\<rparr>" False ?w
        "\<lparr>obj = 2, bo_execbuf = True, vmapping = 9\<rparr>" ?x KDS_ABORT]
  show ?thesis by simp
qed

text \<open>
  The specification has every such write made by the notify path. A submission of
  a buffer whose state word reads \<open>COMPLETED\<close> sets it to \<open>NEW\<close> and returns 0; the
  only call it makes is \<^verbatim>\<open>kds_add_command\<close>, the notify path has not run.
\<close>

theorem state_word_new_counterexample:
  "state (packets
     \<lparr>clients = (\<lambda>a. \<lparr>xclbin_id = Some 7, num_ctx = 1, event = 0\<rparr>),
      packets = (\<lambda>a. \<lparr>state = ERT_CMD_STATE_COMPLETED, count = 16, opcode = ERT_START_CU\<rparr>),
      trace = []\<rparr> 9) = ERT_CMD_STATE_COMPLETED
   \<and> fst (xocl_command_ioctl
       \<lparr>xocl_gem_object_lookup = (\<lambda>h. Some \<lparr>obj = 2, bo_execbuf = True, vmapping = 9\<rparr>),
        kds_alloc_command = (\<lambda>c n. Some \<lparr>client = c, execbuf = 0, gem_obj = 0,
           inkern_cb = None, type = KDS_ERT, cb_free = None, cb_notify_host = None\<rparr>),
        cfg_ecmd2xcmd = (\<lambda>a p x. x\<lparr>execbuf := a\<rparr>),
        start_krnl_ecmd2xcmd = (\<lambda>a p x. x\<lparr>execbuf := a\<rparr>),
        kzalloc_ok = True, kds_add_command = (\<lambda>x. 0)\<rparr>
       \<lparr>bad_state = False, ert_disable = True\<rparr> 4
       \<lparr>exec_bo_handle = 1, cb_func = 0, cb_data = 0\<rparr> False
       \<lparr>clients = (\<lambda>a. \<lparr>xclbin_id = Some 7, num_ctx = 1, event = 0\<rparr>),
        packets = (\<lambda>a. \<lparr>state = ERT_CMD_STATE_COMPLETED, count = 16, opcode = ERT_START_CU\<rparr>),
        trace = []\<rparr>) = 0
   \<and> state (packets (snd (xocl_command_ioctl
       \<lparr>xocl_gem_object_lookup = (\<lambda>h. Some \<lparr>obj = 2, bo_execbuf = True, vmapping = 9\<rparr>),
        kds_alloc_command = (\<lambda>c n. Some \<lparr>client = c, execbuf = 0, gem_obj = 0,
           inkern_cb = None, type = KDS_ERT, cb_free = None, cb_notify_host = None\<rparr>),
        cfg_ecmd2xcmd = (\<lambda>a p x. x\<lparr>execbuf := a\<rparr>),
        start_krnl_ecmd2xcmd = (\<lambda>a p x. x\<lparr>execbuf := a\<rparr>),
        kzalloc_ok = True, kds_add_command = (\<lambda>x. 0)\<rparr>
       \<lparr>bad_state = False, ert_disable = True\<rparr> 4
       \<lparr>exec_bo_handle = 1, cb_func = 0, cb_data = 0\<rparr> False
       \<lparr>clients = (\<lambda>a. \<lparr>xclbin_id = Some 7, num_ctx = 1, event = 0\<rparr>),
        packets = (\<lambda>a. \<lparr>state = ERT_CMD_STATE_COMPLETED, count = 16, opcode = ERT_START_CU\<rparr>),
        trace = []\<rparr>)) 9) = ERT_CMD_STATE_NEW
   \<and> trace (snd (xocl_command_ioctl
       \<lparr>xocl_gem_object_lookup = (\<lambda>h. Some \<lparr>obj = 2, bo_execbuf = True, vmapping = 9\<rparr>),
        kds_alloc_command = (\<lambda>c n. Some \<lparr>client = c, execbuf = 0, gem_obj = 0,
           inkern_cb = None, type = KDS_ERT, cb_free = None, cb_notify_host = None\<rparr>),
        cfg_ecmd2xcmd = (\<lambda>a p x. x\<lparr>execbuf := a\<rparr>),
        start_krnl_ecmd2xcmd = (\<lambda>a p x. x\<lparr>execbuf := a\<rparr>),
        kzalloc_ok = True, kds_add_command = (\<lambda>x. 0)\<rparr>
       \<lparr>bad_state = False, ert_disable = True\<rparr> 4
       \<lparr>exec_bo_handle = 1, cb_func = 0, cb_data = 0\<rparr> False
       \<lparr>clients = (\<lambda>a. \<lparr>xclbin_id = Some 7, num_ctx = 1, event = 0\<rparr>),
        packets = (\<lambda>a. \<lparr>state = ERT_CMD_STATE_COMPLETED, count = 16, opcode = ERT_START_CU\<rparr>),
        trace = []\<rparr>))
     = [Kds_add_command \<lparr>client = 4, execbuf = 9, gem_obj = 2, inkern_cb = None,
          type = KDS_CU, cb_free = Some Kds_free_command,
          cb_notify_host = Some Notify_execbuf\<rparr>]"
  by (simp add: xocl_command_ioctl_def Let_def)

section \<open>Credits\<close>

lemma is_zero_credit_pure: "credit_backend xcu \<Longrightarrow> snd (is_zero_credit xcu) = xcu"
  by (simp add: credit_backend_def is_zero_credit_def cu_peek_credit_def)

lemma peek_times_pure: "credit_backend xcu \<Longrightarrow> peek_times n xcu = xcu"
  unfolding peek_times_def
  by (induction n) (simp_all add: is_zero_credit_pure)

lemma alloc_free_restores:
  "credit_backend xcu \<Longrightarrow> xrt_cu_put_credit (snd (xrt_cu_get_credit xcu)) 1 = xcu"
  by (simp add: credit_backend_def xrt_cu_get_credit_def xrt_cu_put_credit_def
      cu_alloc_credit_def cu_free_credit_def)

lemma credit_backend_hls_cu: "credit_backend (hls_cu m c)"
  by (simp add: credit_backend_def hls_cu_def)

text \<open>
  C8, for the backend modelled above. In every CU state, any number of
  \<^verbatim>\<open>peek_credit\<close> calls (through \<^verbatim>\<open>is_zero_credit\<close>) leaves the CU as it was, and the
  call tells whether the count is zero; \<^verbatim>\<open>alloc_credit\<close> (through
  \<^verbatim>\<open>xrt_cu_get_credit\<close>) returns the count less one, and followed by
  \<^verbatim>\<open>free_credit(1)\<close> (through \<^verbatim>\<open>xrt_cu_put_credit\<close>) it restores the available count,
  and with it the whole CU.
\<close>

theorem credit_round_trip:
  assumes "credit_backend xcu"
  shows "peek_times n xcu = xcu
     \<and> fst (is_zero_credit xcu) = (credits (core xcu) = 0)
     \<and> fst (xrt_cu_get_credit xcu) = credits (core xcu) - 1
     \<and> credits (core (snd (xrt_cu_get_credit xcu))) = credits (core xcu) - 1
     \<and> credits (core (xrt_cu_put_credit (snd (xrt_cu_get_credit xcu)) 1)) = credits (core xcu)
     \<and> xrt_cu_put_credit (snd (xrt_cu_get_credit xcu)) 1 = xcu"
  using assms
  by (simp add: peek_times_pure alloc_free_restores)
     (simp add: credit_backend_def xrt_cu_get_credit_def is_zero_credit_def
        cu_peek_credit_def cu_alloc_credit_def)

theorem credit_round_trip_witness:
  "credit_backend (hls_cu 4 3)
   \<and> peek_times 5 (hls_cu 4 3) = hls_cu 4 3
   \<and> credits (core (snd (xrt_cu_get_credit (hls_cu 4 3)))) = 2
   \<and> credits (core (xrt_cu_put_credit (snd (xrt_cu_get_credit (hls_cu 4 3))) 1)) = 3
   \<and> credit_backend (hls_cu 1 0)
   \<and> fst (xrt_cu_get_credit (hls_cu 1 0)) = - 1
   \<and> credits (core (xrt_cu_put_credit (snd (xrt_cu_get_credit (hls_cu 1 0))) 1)) = 0"
proof -
  have b: "credit_backend (hls_cu 4 3)" by (rule credit_backend_hls_cu)
  have z: "credit_backend (hls_cu 1 0)" by (rule credit_backend_hls_cu)
  have c: "credits (core (hls_cu 4 3)) = 3" by (simp add: hls_cu_def)
  have d: "credits (core (hls_cu 1 0)) = 0" by (simp add: hls_cu_def)
  from credit_round_trip [OF b, of 5] credit_round_trip [OF z, of 0] b z c d
  show ?thesis by simp
qed

end
